theory Spec2Isabelle
  imports Complex_Main "HOL-Library.AList" "HOL-Library.Sublist"
begin

section \<open>Python values, exceptions and strings\<close>

text \<open>
  The tools of the Smart UAE Agent live in two files, \<^verbatim>\<open>tools.py\<close> and
  \<^verbatim>\<open>tools.fixed.py\<close>. Both are embedded here; a definition taken from
  \<^verbatim>\<open>tools.fixed.py\<close> carries the suffix \<open>_fixed\<close> wherever the two files
  use the same name.

  Every tool ends in \<^verbatim>\<open>json.dumps(value)\<close>; the model returns the value handed to
  \<^verbatim>\<open>json.dumps\<close>. An exception that would leave a function is the left summand of
  the result.
\<close>

datatype py_error =
  KeyError | TypeError | AttributeError | ValueError | OverflowError
  | RequestException | JSONDecodeError

datatype json =
  JNull | JBool bool | JNum int | JStr string
  | JArr "json list" | JObj "(string \<times> json) list"

text \<open>Subscription \<^verbatim>\<open>d[k]\<close> of a dict held as an association list: a missing key
  raises \<^verbatim>\<open>KeyError\<close>.\<close>

definition getitem :: "(string \<times> 'a) list \<Rightarrow> string \<Rightarrow> py_error + 'a" where
  "getitem d k = (case map_of d k of None \<Rightarrow> Inl KeyError | Some v \<Rightarrow> Inr v)"

text \<open>The functions \<open>lower\<close>, \<open>title\<close> and \<open>strip\<close> below are the Python methods on
  ASCII text: \<^verbatim>\<open>lower\<close> and \<^verbatim>\<open>title\<close> change the letters A to Z only, and \<^verbatim>\<open>strip\<close>
  removes the ASCII white space of \<^verbatim>\<open>str.isspace\<close>.\<close>

definition ascii_upper :: string where
  "ascii_upper = ''ABCDEFGHIJKLMNOPQRSTUVWXYZ''"

definition ascii_lower :: string where
  "ascii_lower = ''abcdefghijklmnopqrstuvwxyz''"

definition lower_char :: "char \<Rightarrow> char" where
  "lower_char c = (case map_of (zip ascii_upper ascii_lower) c of Some d \<Rightarrow> d | None \<Rightarrow> c)"

definition upper_char :: "char \<Rightarrow> char" where
  "upper_char c = (case map_of (zip ascii_lower ascii_upper) c of Some d \<Rightarrow> d | None \<Rightarrow> c)"

definition is_cased :: "char \<Rightarrow> bool" where
  "is_cased c = (c \<in> set ascii_upper \<or> c \<in> set ascii_lower)"

definition lower :: "string \<Rightarrow> string" where
  "lower s = map lower_char s"

definition is_space :: "char \<Rightarrow> bool" where
  "is_space c = (c \<in> set [CHR 0x09, CHR 0x0A, CHR 0x0B, CHR 0x0C, CHR 0x0D,
                           CHR 0x1C, CHR 0x1D, CHR 0x1E, CHR 0x1F, CHR 0x20])"

definition strip :: "string \<Rightarrow> string" where
  "strip s = rev (dropWhile is_space (rev (dropWhile is_space s)))"

text \<open>\<^verbatim>\<open>str.title\<close>: a letter that follows a letter is lowered, any other letter is
  raised.\<close>

fun title_from :: "bool \<Rightarrow> string \<Rightarrow> string" where
  "title_from prev [] = []"
| "title_from prev (c # cs) =
     (if is_cased c
      then (if prev then lower_char c else upper_char c) # title_from True cs
      else c # title_from False cs)"

definition title :: "string \<Rightarrow> string" where
  "title s = title_from False s"

text \<open>The substring test \<^verbatim>\<open>sub in s\<close>.\<close>

fun starts_with :: "string \<Rightarrow> string \<Rightarrow> bool" where
  "starts_with s [] = True"
| "starts_with [] (p # ps) = False"
| "starts_with (c # cs) (p # ps) = (c = p \<and> starts_with cs ps)"

fun contains :: "string \<Rightarrow> string \<Rightarrow> bool" where
  "contains [] sub = (sub = [])"
| "contains (c # cs) sub = (starts_with (c # cs) sub \<or> contains cs sub)"

text \<open>\<^verbatim>\<open>s.split(sep)\<close> for a one-character separator.\<close>

fun split_on :: "char \<Rightarrow> string \<Rightarrow> string list" where
  "split_on sep [] = [[]]"
| "split_on sep (c # cs) =
     (if c = sep then [] # split_on sep cs
      else (case split_on sep cs of [] \<Rightarrow> [[c]] | p # ps \<Rightarrow> (c # p) # ps))"

text \<open>
  The methods \<^verbatim>\<open>str.strip\<close>, \<^verbatim>\<open>str.lower\<close> and \<^verbatim>\<open>str.title\<close> belong to Python,
  not to the repository, and on text outside ASCII they follow the Unicode tables. The
  tools of \<^verbatim>\<open>tools.fixed.py\<close> that normalise an argument with them take the three
  methods as a parameter, so that whatever is proved of these tools holds with Python's
  own methods, for every string. \<open>ascii_methods\<close> are the methods as defined above;
  they agree with Python's on ASCII text and serve to run examples.
\<close>

record str_methods =
  py_strip :: "string \<Rightarrow> string"
  py_lower :: "string \<Rightarrow> string"
  py_title :: "string \<Rightarrow> string"

definition ascii_methods :: str_methods where
  "ascii_methods = \<lparr>py_strip = strip, py_lower = lower, py_title = title\<rparr>"

text \<open>Truth value of an \<^verbatim>\<open>Optional[str]\<close> argument: \<^verbatim>\<open>None\<close> and the empty
  string are false.\<close>

definition truthy :: "string option \<Rightarrow> bool" where
  "truthy a = (case a of None \<Rightarrow> False | Some s \<Rightarrow> s \<noteq> [])"


section \<open>The object heap and the preference stores\<close>

text \<open>
  Dicts and lists are mutable objects. The heap is the list of allocated objects, an
  address is an index into it, and allocation appends. A value is immediate or a
  reference to an object.
\<close>

type_synonym addr = nat

datatype pyval = PNone | PBool bool | PInt int | PStr string | PRef addr

datatype obj = DictObj "(string \<times> pyval) list" | ListObj "pyval list"

type_synonym heap = "obj list"

definition alloc :: "heap \<Rightarrow> obj \<Rightarrow> addr \<times> heap" where
  "alloc h ob = (length h, h @ [ob])"

definition dict_of :: "heap \<Rightarrow> addr \<Rightarrow> (string \<times> pyval) list" where
  "dict_of h a =
     (if a < length h then (case h ! a of DictObj d \<Rightarrow> d | ListObj xs \<Rightarrow> []) else [])"

definition is_dict :: "heap \<Rightarrow> addr \<Rightarrow> bool" where
  "is_dict h a = (a < length h \<and> (case h ! a of DictObj d \<Rightarrow> True | ListObj xs \<Rightarrow> False))"

text \<open>\<^verbatim>\<open>d[k] = v\<close> for each pair in turn, as \<^verbatim>\<open>dict.update\<close> and the loop of
  \<^verbatim>\<open>set_many\<close> do: an existing key keeps its place, a new key goes last.\<close>

definition store_all :: "(string \<times> pyval) list \<Rightarrow> (string \<times> pyval) list \<Rightarrow> (string \<times> pyval) list" where
  "store_all kvs d = fold (\<lambda>(k, v). AList.update k v) kvs d"

subsection \<open>\<^verbatim>\<open>PreferencesStore\<close> of \<^verbatim>\<open>tools.py\<close>\<close>

text \<open>A store is identified with the address of its \<^verbatim>\<open>_store\<close> dict, which is
  never rebound. \<^verbatim>\<open>__init__\<close> allocates the empty \<^verbatim>\<open>interests\<close> list and the
  dict.\<close>

definition PreferencesStore_init :: "heap \<Rightarrow> addr \<times> heap" where
  "PreferencesStore_init h =
     (let (l, h1) = alloc h (ListObj [])
      in alloc h1 (DictObj [(''budget_level'', PStr ''mid''),
                            (''interests'', PRef l),
                            (''food'', PNone)]))"

definition prefs_set :: "heap \<Rightarrow> addr \<Rightarrow> string \<Rightarrow> pyval \<Rightarrow> heap" where
  "prefs_set h self key val = h[self := DictObj (AList.update key val (dict_of h self))]"

definition prefs_get :: "heap \<Rightarrow> addr \<Rightarrow> string \<Rightarrow> pyval \<Rightarrow> pyval" where
  "prefs_get h self key dflt =
     (case map_of (dict_of h self) key of Some v \<Rightarrow> v | None \<Rightarrow> dflt)"

definition prefs_update :: "heap \<Rightarrow> addr \<Rightarrow> (string \<times> pyval) list \<Rightarrow> heap" where
  "prefs_update h self d = h[self := DictObj (store_all d (dict_of h self))]"

definition dump :: "heap \<Rightarrow> addr \<Rightarrow> addr \<times> heap" where
  "dump h self = alloc h (DictObj (dict_of h self))"

subsection \<open>\<^verbatim>\<open>PreferencesStore\<close> of \<^verbatim>\<open>tools.fixed.py\<close>\<close>

definition PreferencesStore_init_fixed :: "heap \<Rightarrow> addr \<times> heap" where
  "PreferencesStore_init_fixed h =
     alloc h (DictObj [(''budget_level'', PStr ''standard''),
                       (''home_city'', PNone),
                       (''language'', PStr ''en'')])"

text \<open>\<^verbatim>\<open>set_many\<close> returns \<^verbatim>\<open>self._store\<close> itself, not a copy.\<close>

definition set_many :: "heap \<Rightarrow> addr \<Rightarrow> (string \<times> pyval) list \<Rightarrow> addr \<times> heap" where
  "set_many h self kwargs = (self, h[self := DictObj (store_all kwargs (dict_of h self))])"

definition get_all :: "heap \<Rightarrow> addr \<Rightarrow> addr \<times> heap" where
  "get_all h self = alloc h (DictObj (dict_of h self))"

text \<open>The tool \<^verbatim>\<open>set_preferences\<close> of \<^verbatim>\<open>tools.fixed.py\<close>, on the global store
  \<^verbatim>\<open>PREFS\<close>. The reply is the snapshot placed under \<^verbatim>\<open>"preferences"\<close>.\<close>

definition preference_updates ::
  "string option \<Rightarrow> string option \<Rightarrow> string option \<Rightarrow> (string \<times> pyval) list" where
  "preference_updates budget_level home_city language =
     (let updates = [];
          updates = (case budget_level of
                       Some s \<Rightarrow> if truthy budget_level
                                 then AList.update ''budget_level'' (PStr s) updates else updates
                     | None \<Rightarrow> updates);
          updates = (case home_city of
                       Some s \<Rightarrow> if truthy home_city
                                 then AList.update ''home_city'' (PStr s) updates else updates
                     | None \<Rightarrow> updates);
          updates = (case language of
                       Some s \<Rightarrow> if truthy language
                                 then AList.update ''language'' (PStr s) updates else updates
                     | None \<Rightarrow> updates)
      in updates)"

definition set_preferences_fixed ::
  "heap \<Rightarrow> addr \<Rightarrow> string option \<Rightarrow> string option \<Rightarrow> string option
     \<Rightarrow> (string \<times> pyval) list \<times> heap" where
  "set_preferences_fixed h PREFS budget_level home_city language =
     (let updates = preference_updates budget_level home_city language;
          (r, h1) = set_many h PREFS updates;
          (snap, h2) = get_all h1 PREFS
      in (dict_of h2 snap, h2))"

text \<open>The tool \<^verbatim>\<open>get_preferences\<close> of \<^verbatim>\<open>tools.fixed.py\<close>.\<close>

definition get_preferences_fixed :: "heap \<Rightarrow> addr \<Rightarrow> (string \<times> pyval) list \<times> heap" where
  "get_preferences_fixed h PREFS = (let (snap, h1) = get_all h PREFS in (dict_of h1 snap, h1))"

text \<open>What a caller can do to a dict \<open>d\<close> it holds. On the dict itself: item
  assignment, \<^verbatim>\<open>del\<close>, \<^verbatim>\<open>pop\<close>, \<^verbatim>\<open>clear\<close>, \<^verbatim>\<open>update\<close>; \<^verbatim>\<open>del\<close> and
  \<^verbatim>\<open>pop\<close> of a missing key raise \<^verbatim>\<open>KeyError\<close> and leave the dict as it was.
  Through a value of the dict: \<^verbatim>\<open>d[k].append(v)\<close> and the augmented assignment
  \<^verbatim>\<open>d[k] += vs\<close> with a list \<open>vs\<close>. Both read \<^verbatim>\<open>d[k]\<close> (\<^verbatim>\<open>KeyError\<close> when the
  key is missing) and change the list object found there in place; on a value that is
  not a list the first raises \<^verbatim>\<open>AttributeError\<close> and the second \<^verbatim>\<open>TypeError\<close>. The
  augmented assignment then stores the same object back under \<open>k\<close>. Any other method
  that changes a list in place (\<^verbatim>\<open>clear\<close>, \<^verbatim>\<open>pop\<close>, \<^verbatim>\<open>sort\<close>, item assignment, ...)
  is \<open>ItemListOp k f\<close>, where \<open>f\<close> takes the old content of the list to the new.\<close>

datatype dict_mutation =
  SetItem string pyval | DelItem string | Pop string | Clear
  | Update "(string \<times> pyval) list"
  | ItemAppend string pyval | ItemExtend string "pyval list"
  | ItemListOp string "pyval list \<Rightarrow> pyval list"

text \<open>The list object a value refers to, if it refers to one.\<close>

definition list_at :: "heap \<Rightarrow> pyval \<Rightarrow> pyval list option" where
  "list_at h v =
     (case v of
        PRef l \<Rightarrow>
          (if l < length h
           then (case h ! l of ListObj xs \<Rightarrow> Some xs | DictObj d \<Rightarrow> None)
           else None)
      | _ \<Rightarrow> None)"

definition address_of :: "pyval \<Rightarrow> addr" where
  "address_of v = (case v of PRef l \<Rightarrow> l | _ \<Rightarrow> 0)"

definition mutate :: "heap \<Rightarrow> addr \<Rightarrow> dict_mutation \<Rightarrow> py_error + heap" where
  "mutate h a m =
     (let d = dict_of h a in
      case m of
        SetItem k v \<Rightarrow> Inr (h[a := DictObj (AList.update k v d)])
      | DelItem k \<Rightarrow>
          (if k \<in> fst ` set d then Inr (h[a := DictObj (AList.delete k d)]) else Inl KeyError)
      | Pop k \<Rightarrow>
          (if k \<in> fst ` set d then Inr (h[a := DictObj (AList.delete k d)]) else Inl KeyError)
      | Clear \<Rightarrow> Inr (h[a := DictObj []])
      | Update kvs \<Rightarrow> Inr (h[a := DictObj (store_all kvs d)])
      | ItemAppend k v \<Rightarrow>
          (case map_of d k of
             None \<Rightarrow> Inl KeyError
           | Some x \<Rightarrow>
               (case list_at h x of
                  None \<Rightarrow> Inl AttributeError
                | Some xs \<Rightarrow> Inr (h[address_of x := ListObj (xs @ [v])])))
      | ItemExtend k vs \<Rightarrow>
          (case map_of d k of
             None \<Rightarrow> Inl KeyError
           | Some x \<Rightarrow>
               (case list_at h x of
                  None \<Rightarrow> Inl TypeError
                | Some xs \<Rightarrow> Inr (h[address_of x := ListObj (xs @ vs)])))
      | ItemListOp k f \<Rightarrow>
          (case map_of d k of
             None \<Rightarrow> Inl KeyError
           | Some x \<Rightarrow>
               (case list_at h x of
                  None \<Rightarrow> Inl AttributeError
                | Some xs \<Rightarrow> Inr (h[address_of x := ListObj (f xs)]))))"

text \<open>The operations on the dict itself.\<close>

definition top_level :: "dict_mutation \<Rightarrow> bool" where
  "top_level m =
     (case m of
        ItemAppend k v \<Rightarrow> False
      | ItemExtend k vs \<Rightarrow> False
      | ItemListOp k f \<Rightarrow> False
      | _ \<Rightarrow> True)"

text \<open>A sequence of mutations stops at the first exception; the heap reached so far is
  what the rest of the program sees.\<close>

fun mutate_all :: "heap \<Rightarrow> addr \<Rightarrow> dict_mutation list \<Rightarrow> heap \<times> py_error option" where
  "mutate_all h a [] = (h, None)"
| "mutate_all h a (m # ms) =
     (case mutate h a m of Inl e \<Rightarrow> (h, Some e) | Inr h' \<Rightarrow> mutate_all h' a ms)"


section \<open>Binary floating point: \<^verbatim>\<open>math.ceil(subtotal * 1.10)\<close>\<close>

text \<open>
  \<^verbatim>\<open>subtotal\<close> is a Python \<^verbatim>\<open>int\<close> and \<^verbatim>\<open>1.10\<close> a binary64 float, so the product
  converts the integer to binary64 and multiplies in binary64, each step rounding to
  the nearest value with a 53-bit significand, ties to even. The literal \<^verbatim>\<open>1.10\<close> is
  the double \<open>4953959590107546 / 2^52\<close>. A non-negative finite double is held as a pair
  \<open>(m, e)\<close> that stands for \<open>m * 2^e\<close>; the computation is carried out in exact integer
  arithmetic.
\<close>

fun bit_length :: "int \<Rightarrow> nat" where
  "bit_length n = (if n \<le> 0 then 0 else Suc (bit_length (n div 2)))"

declare bit_length.simps [simp del]

text \<open>\<open>n / 2^sh\<close> rounded to the nearest integer, ties to the even one.\<close>

definition round_half_even :: "int \<Rightarrow> nat \<Rightarrow> int" where
  "round_half_even n sh =
     (let q = n div 2 ^ sh; r = n mod 2 ^ sh in
      if 2 * r > 2 ^ sh \<or> (2 * r = 2 ^ sh \<and> odd q) then q + 1 else q)"

text \<open>A non-negative integer \<open>n\<close> rounded to 53 significant bits: the result \<open>(m, sh)\<close>
  stands for \<open>m * 2^sh\<close>.\<close>

definition to_binary64 :: "int \<Rightarrow> int \<times> nat" where
  "to_binary64 n = (let sh = bit_length n - 53 in (round_half_even n sh, sh))"

definition one_point_ten :: int where
  "one_point_ten = 4953959590107546"

text \<open>\<^verbatim>\<open>math.ceil(n * 1.10)\<close>. The conversion of \<open>n\<close> raises \<^verbatim>\<open>OverflowError\<close> when
  \<open>n\<close> rounds to \<open>2^1024\<close> or more; a product that rounds to \<open>2^1024\<close> or more is
  infinite and \<^verbatim>\<open>math.ceil\<close> raises \<^verbatim>\<open>OverflowError\<close> on it. The sign is carried
  separately, the rounding being symmetric.\<close>

definition ceil_times_1_10 :: "int \<Rightarrow> py_error + int" where
  "ceil_times_1_10 n =
     (let (m1, s1) = to_binary64 \<bar>n\<bar> in
      if m1 * 2 ^ s1 \<ge> 2 ^ 1024 then Inl OverflowError
      else
        let (m2, s2) = to_binary64 (m1 * one_point_ten);
            s = s1 + s2
        in if m2 * 2 ^ s \<ge> 2 ^ 1076 then Inl OverflowError
           else if s \<ge> 52 then Inr (sgn n * (m2 * 2 ^ (s - 52)))
           else if n \<ge> 0 then Inr (- ((- m2) div 2 ^ (52 - s)))
           else Inr (- (m2 div 2 ^ (52 - s))))"


section \<open>The budget estimators\<close>

definition and_then :: "py_error + 'a \<Rightarrow> ('a \<Rightarrow> py_error + 'b) \<Rightarrow> py_error + 'b" where
  "and_then r f = (case r of Inl e \<Rightarrow> Inl e | Inr v \<Rightarrow> f v)"

subsection \<open>\<^verbatim>\<open>estimate_budget\<close> of \<^verbatim>\<open>tools.py\<close>\<close>

definition CITY_COSTS :: "(string \<times> (string \<times> int) list) list" where
  "CITY_COSTS =
     [(''Dubai'', [(''budget'', 100), (''mid'', 150), (''luxe'', 250)]),
      (''Abu Dhabi'', [(''budget'', 50), (''mid'', 120), (''luxe'', 260)]),
      (''Sharjah'', [(''budget'', 50), (''mid'', 120), (''luxe'', 260)]),
      (''General'', [(''budget'', 50), (''mid'', 120), (''luxe'', 260)])]"

definition TRANSPORT_DAY :: "(string \<times> int) list" where
  "TRANSPORT_DAY = [(''budget'', 12), (''mid'', 25), (''luxe'', 60)]"

definition MEALS_DAY :: "(string \<times> int) list" where
  "MEALS_DAY = [(''budget'', 18), (''mid'', 35), (''luxe'', 80)]"

definition ATTRACTIONS :: "(string \<times> int) list" where
  "ATTRACTIONS = [(''budget'', 10), (''mid'', 25), (''luxe'', 50)]"

text \<open>\<^verbatim>\<open>v.lower()\<close> on a stored value: only a string has the method.\<close>

definition str_lower :: "pyval \<Rightarrow> py_error + string" where
  "str_lower v = (case v of PStr s \<Rightarrow> Inr (lower s) | _ \<Rightarrow> Inl AttributeError)"

text \<open>\<^verbatim>\<open>budget_level or prefs.get("budget_level", "mid")\<close>.\<close>

definition level_or_preference :: "heap \<Rightarrow> addr \<Rightarrow> string option \<Rightarrow> pyval" where
  "level_or_preference h prefs budget_level =
     (case budget_level of
        Some s \<Rightarrow> if truthy budget_level then PStr s
                  else prefs_get h prefs ''budget_level'' (PStr ''mid'')
      | None \<Rightarrow> prefs_get h prefs ''budget_level'' (PStr ''mid''))"

definition estimate_budget ::
  "heap \<Rightarrow> addr \<Rightarrow> string \<Rightarrow> int \<Rightarrow> int \<Rightarrow> string option \<Rightarrow> py_error + json" where
  "estimate_budget h prefs city days travellers budget_level =
     and_then (str_lower (level_or_preference h prefs budget_level)) (\<lambda>lvl0.
     let lvl = (if lvl0 \<notin> set [''budget'', ''mid'', ''luxe''] then ''mid'' else lvl0) in
     and_then (getitem CITY_COSTS ''General'') (\<lambda>general.
     let base = (case map_of CITY_COSTS city of Some row \<Rightarrow> row | None \<Rightarrow> general) in
     and_then (getitem base lvl) (\<lambda>rate.
     let hotel = rate * days * travellers in
     and_then (getitem TRANSPORT_DAY lvl) (\<lambda>t.
     let transport = t * days * travellers in
     and_then (getitem MEALS_DAY lvl) (\<lambda>m.
     let meals = m * days * travellers in
     and_then (getitem ATTRACTIONS lvl) (\<lambda>a.
     let attractions = a * days * travellers;
         subtotal = hotel + transport + meals + attractions in
     and_then (ceil_times_1_10 subtotal) (\<lambda>total.
     Inr (JObj
       [(''assumptions_note'', JStr ''Rough averages; adjust to season and availability.''),
        (''inputs'', JObj [(''city'', JStr city), (''days'', JNum days),
                          (''travellers'', JNum travellers), (''budget_level'', JStr lvl)]),
        (''usd_breakdown'', JObj [(''accommodation'', JNum hotel),
                                 (''transport'', JNum transport),
                                 (''meals'', JNum meals),
                                 (''attractions'', JNum attractions),
                                 (''buffer_10pct'', JNum (total - subtotal))]),
        (''total_usd'', JNum total)]))))))))"

subsection \<open>\<^verbatim>\<open>estimate_budget\<close> of \<^verbatim>\<open>tools.fixed.py\<close>\<close>

text \<open>\<^verbatim>\<open>(style or "standard").lower().strip()\<close>.\<close>

definition normal_style :: "str_methods \<Rightarrow> string option \<Rightarrow> string" where
  "normal_style L style =
     py_strip L (py_lower L (case style of
                                 Some s \<Rightarrow> if truthy style then s else ''standard''
                               | None \<Rightarrow> ''standard''))"

definition estimate_budget_fixed ::
  "str_methods \<Rightarrow> string \<Rightarrow> int \<Rightarrow> string option \<Rightarrow> py_error + json" where
  "estimate_budget_fixed L city days style0 =
     (let style = normal_style L style0 in
      if style \<notin> set [''budget'', ''standard'', ''luxury'']
      then Inr (JObj [(''error'', JStr ''style must be budget|standard|luxury'')])
      else if days \<le> 0
      then Inr (JObj [(''error'', JStr ''days must be > 0'')])
      else
        let rates = [(''budget'', 150), (''standard'', 400), (''luxury'', 1000)] in
        and_then (getitem rates style) (\<lambda>rate.
        let total = rate * days in
        Inr (JObj [(''city'', JStr city), (''days'', JNum days), (''style'', JStr style),
                   (''rate_per_day_aed'', JNum rate), (''estimated_total_aed'', JNum total)])))"

text \<open>Reading and replacing a member of a JSON object.\<close>

fun field :: "string \<Rightarrow> json \<Rightarrow> json option" where
  "field k (JObj kvs) = map_of kvs k"
| "field k j = None"

fun set_field :: "string \<Rightarrow> json \<Rightarrow> json \<Rightarrow> json" where
  "set_field k v (JObj kvs) = JObj (AList.update k v kvs)"
| "set_field k v j = j"

text \<open>The quote with the echoed input city replaced.\<close>

definition with_city :: "string \<Rightarrow> json \<Rightarrow> json" where
  "with_city city q =
     (case field ''inputs'' q of
        Some inp \<Rightarrow> set_field ''inputs'' (set_field ''city'' (JStr city) inp) q
      | None \<Rightarrow> q)"


section \<open>The prayer-time tools\<close>

text \<open>
  What the HTTP request does is the environment's choice: it raises (time-out, no
  connection), or it returns a response with a status code and a body, which parses as
  JSON or does not. The clock is the triple of strings that \<^verbatim>\<open>strftime\<close> yields for
  year, month and day.
\<close>

datatype http_outcome = Raises | Response nat "json option"

type_synonym clock = "string \<times> string \<times> string"

text \<open>\<^verbatim>\<open>j[k]\<close> with a string \<open>k\<close> on a parsed JSON value: only a dict can be indexed by a
  string.\<close>

definition subscript :: "json \<Rightarrow> string \<Rightarrow> py_error + json" where
  "subscript j k = (case j of JObj kvs \<Rightarrow> getitem kvs k | _ \<Rightarrow> Inl TypeError)"

text \<open>\<^verbatim>\<open>k in j\<close> with a string \<open>k\<close>: key membership on a dict, element membership on a
  list, substring test on a string, \<^verbatim>\<open>TypeError\<close> on anything else.\<close>

definition json_contains :: "json \<Rightarrow> string \<Rightarrow> py_error + bool" where
  "json_contains j k =
     (case j of
        JObj kvs \<Rightarrow> Inr (k \<in> fst ` set kvs)
      | JArr xs \<Rightarrow> Inr (JStr k \<in> set xs)
      | JStr s \<Rightarrow> Inr (contains s k)
      | _ \<Rightarrow> Inl TypeError)"

text \<open>The comprehension \<^verbatim>\<open>{k: timings[k] for k in names if k in timings}\<close>.\<close>

fun pick :: "json \<Rightarrow> string list \<Rightarrow> py_error + (string \<times> json) list" where
  "pick timings [] = Inr []"
| "pick timings (k # ks) =
     and_then (json_contains timings k) (\<lambda>present.
       if present
       then and_then (subscript timings k) (\<lambda>v.
            and_then (pick timings ks) (\<lambda>rest. Inr ((k, v) # rest)))
       else pick timings ks)"

definition CANONICAL :: "string list" where
  "CANONICAL = [''Fajr'', ''Dhuhr'', ''Asr'', ''Maghrib'', ''Isha'']"

subsection \<open>\<^verbatim>\<open>prayer_times\<close> of \<^verbatim>\<open>tools.fixed.py\<close>\<close>

definition FALLBACK :: "(string \<times> (string \<times> json) list) list" where
  "FALLBACK =
     [(''Dubai'', [(''Fajr'', JStr ''04:25''), (''Dhuhr'', JStr ''12:25''),
                   (''Asr'', JStr ''15:55''), (''Maghrib'', JStr ''18:49''),
                   (''Isha'', JStr ''20:19'')]),
      (''Abu Dhabi'', [(''Fajr'', JStr ''04:30''), (''Dhuhr'', JStr ''12:30''),
                       (''Asr'', JStr ''16:00''), (''Maghrib'', JStr ''18:53''),
                       (''Isha'', JStr ''20:23'')]),
      (''Sharjah'', [(''Fajr'', JStr ''04:26''), (''Dhuhr'', JStr ''12:25''),
                     (''Asr'', JStr ''15:56''), (''Maghrib'', JStr ''18:49''),
                     (''Isha'', JStr ''20:19'')])]"

text \<open>\<^verbatim>\<open>(city or "").strip().title() or "Dubai"\<close>.\<close>

definition normalize_city :: "str_methods \<Rightarrow> string \<Rightarrow> string" where
  "normalize_city L city =
     (let c = py_title L (py_strip L city) in if c = [] then ''Dubai'' else c)"

text \<open>The date: today's when the argument is \<^verbatim>\<open>None\<close> or empty; the unpacking of
  \<^verbatim>\<open>date.split("-")\<close> raises \<^verbatim>\<open>ValueError\<close> unless there are exactly three parts, and
  the handler takes today's parts.\<close>

definition unpack3 :: "string list \<Rightarrow> py_error + (string \<times> string \<times> string)" where
  "unpack3 parts = (case parts of [a, b, c] \<Rightarrow> Inr (a, b, c) | _ \<Rightarrow> Inl ValueError)"

definition resolve_date :: "clock \<Rightarrow> string option \<Rightarrow> string \<times> string \<times> string" where
  "resolve_date now date =
     (let (Y, m, d) = now;
          date = (case date of
                    Some s \<Rightarrow> if truthy date then s else Y @ ''-'' @ m @ ''-'' @ d
                  | None \<Rightarrow> Y @ ''-'' @ m @ ''-'' @ d)
      in case unpack3 (split_on CHR ''-'' date) of
           Inr parts \<Rightarrow> parts
         | Inl e \<Rightarrow> (Y, m, d))"

text \<open>The body of the second \<^verbatim>\<open>try\<close> up to \<^verbatim>\<open>out\<close>: the request, \<^verbatim>\<open>resp.json()\<close>,
  the two subscripts and the comprehension. The status code is not read.\<close>

definition live_timings :: "http_outcome \<Rightarrow> py_error + (string \<times> json) list" where
  "live_timings outcome =
     (case outcome of
        Raises \<Rightarrow> Inl RequestException
      | Response status body \<Rightarrow>
          (case body of
             None \<Rightarrow> Inl JSONDecodeError
           | Some j \<Rightarrow>
               and_then (subscript j ''data'') (\<lambda>data.
               and_then (subscript data ''timings'') (\<lambda>timings.
               pick timings CANONICAL))))"

text \<open>The live path succeeds when the \<^verbatim>\<open>try\<close> block reaches its \<^verbatim>\<open>return\<close>: no
  exception, and \<^verbatim>\<open>out\<close> not empty.\<close>

definition live_ok :: "http_outcome \<Rightarrow> bool" where
  "live_ok outcome = (case live_timings outcome of Inr out \<Rightarrow> out \<noteq> [] | Inl e \<Rightarrow> False)"

definition prayer_times_fixed ::
  "str_methods \<Rightarrow> clock \<Rightarrow> http_outcome \<Rightarrow> string \<Rightarrow> string option
     \<Rightarrow> py_error + json" where
  "prayer_times_fixed L now outcome city date =
     (let city_norm = normalize_city L city;
          (yyyy, mm, dd) = resolve_date now date;
          live = (case live_timings outcome of
                    Inr out \<Rightarrow>
                      if out \<noteq> []
                      then Some (JObj [(''city'', JStr city_norm),
                                       (''date'', JStr (yyyy @ ''-'' @ mm @ ''-'' @ dd)),
                                       (''prayer_times'', JObj out)])
                      else None
                  | Inl e \<Rightarrow> None)
      in case live of
           Some r \<Rightarrow> Inr r
         | None \<Rightarrow>
             and_then (getitem FALLBACK ''Dubai'') (\<lambda>dubai.
             Inr (JObj [(''city'', JStr city_norm),
                        (''date'', JStr (yyyy @ ''-'' @ mm @ ''-'' @ dd)),
                        (''prayer_times'',
                           JObj (case map_of FALLBACK city_norm of
                                   Some row \<Rightarrow> row | None \<Rightarrow> dubai)),
                        (''note'', JStr ''Static fallback'')])))"

subsection \<open>\<^verbatim>\<open>prayer_times\<close> of \<^verbatim>\<open>tools.py\<close>\<close>

text \<open>The tool returns \<^verbatim>\<open>json.dumps\<close> of a value, or \<^verbatim>\<open>json.dumps({"error": str(e)})\<close>
  for a caught exception \<open>e\<close>, or, when control leaves the \<^verbatim>\<open>try\<close> without a
  \<^verbatim>\<open>return\<close>, \<^verbatim>\<open>None\<close>.\<close>

datatype reply = Reply json | ErrorReply py_error | NoReply

text \<open>\<^verbatim>\<open>data.get(k)\<close>: only a dict has the method; a missing key gives \<^verbatim>\<open>None\<close>.\<close>

definition json_get :: "json \<Rightarrow> string \<Rightarrow> py_error + json" where
  "json_get j k =
     (case j of
        JObj kvs \<Rightarrow> (case map_of kvs k of Some v \<Rightarrow> Inr v | None \<Rightarrow> Inr JNull)
      | _ \<Rightarrow> Inl AttributeError)"

definition prayer_times ::
  "string \<Rightarrow> http_outcome \<Rightarrow> string \<Rightarrow> string option \<Rightarrow> py_error + reply" where
  "prayer_times today outcome city date =
     (case (case date of
              None \<Rightarrow>
                (case outcome of
                   Raises \<Rightarrow> Inl RequestException
                 | Response status body \<Rightarrow>
                     (case body of
                        None \<Rightarrow> Inl JSONDecodeError
                      | Some data \<Rightarrow>
                          and_then (json_get data ''code'') (\<lambda>code.
                          if code = JNum 200
                          then and_then (subscript data ''date'') (\<lambda>d.
                               and_then (subscript d ''timings'') (\<lambda>timings.
                               Inr (Reply (JObj [(''city'', JStr city),
                                                 (''date'', JStr today),
                                                 (''results'', timings)]))))
                          else and_then (json_get data ''data'') (\<lambda>d.
                               Inr (Reply (JObj [(''error'', d)]))))))
            | Some d \<Rightarrow> Inr NoReply) of
        Inr r \<Rightarrow> Inr r
      | Inl e \<Rightarrow> Inr (ErrorReply e))"


section \<open>The knowledge search of \<^verbatim>\<open>tools.fixed.py\<close>\<close>

text \<open>
  The knowledge document as \<^verbatim>\<open>json.load\<close> delivers it: each of the three top-level keys
  may be absent, and so may each of the two lists of a city. Dicts are association
  lists in document order.
\<close>

record city_info =
  top_attractions :: "string list option"
  cultural_tips :: "string list option"

record kb =
  cities :: "(string \<times> city_info) list option"
  activities :: "(string \<times> string list) list option"
  general_info :: "(string \<times> string) list option"

datatype search_result =
  CulturalTips string "string list"
  | TopAttractions string "string list"
  | GeneralInfo "(string \<times> string) list"
  | Category string "string list"
  | WholeDocument kb

text \<open>\<^verbatim>\<open>d.get(k, default)\<close> on a dict that may itself be absent.\<close>

definition get_or :: "(string \<times> 'a) list \<Rightarrow> string \<Rightarrow> 'a \<Rightarrow> 'a" where
  "get_or d k dflt = (case map_of d k of Some v \<Rightarrow> v | None \<Rightarrow> dflt)"

text \<open>\<^verbatim>\<open>list(dict.fromkeys(xs))\<close>: the first occurrence of each element, in order.\<close>

definition fromkeys :: "string list \<Rightarrow> string list" where
  "fromkeys xs = fold (\<lambda>x acc. if x \<in> set acc then acc else acc @ [x]) xs []"

definition detect_city :: "(string \<times> city_info) list \<Rightarrow> string \<Rightarrow> string option" where
  "detect_city cs q =
     (case find (\<lambda>c. contains q (lower c)) (map fst cs) of
        Some c \<Rightarrow> Some c
      | None \<Rightarrow>
          if contains q ''ras al khaimah'' \<or> contains q ''rak''
          then Some ''Ras Al Khaimah'' else None)"

definition cultural_kw :: "string \<Rightarrow> bool" where
  "cultural_kw q =
     (contains q ''cultural tip'' \<or> contains q ''culture tip''
      \<or> contains q ''dress'' \<or> contains q ''ramadan'')"

definition attraction_kw :: "string \<Rightarrow> bool" where
  "attraction_kw q =
     list_ex (contains q)
       [''attraction'', ''thing to do'', ''what can i do'', ''places to visit'', ''itinerary'']"

definition general_kw :: "string \<Rightarrow> bool" where
  "general_kw q =
     list_ex (contains q) [''currency'', ''language'', ''best time'', ''transport'', ''metro'']"

definition search_json_kb :: "kb \<Rightarrow> string \<Rightarrow> py_error + search_result" where
  "search_json_kb doc query =
     (let q = strip (lower query);
          cs = (case cities doc of Some c \<Rightarrow> c | None \<Rightarrow> []);
          acts = (case activities doc of Some a \<Rightarrow> a | None \<Rightarrow> []);
          general = (case general_info doc of Some g \<Rightarrow> g | None \<Rightarrow> []);
          city = detect_city cs q;
          named = (case city of Some c \<Rightarrow> c \<noteq> [] | None \<Rightarrow> False);
          name = (case city of Some c \<Rightarrow> c | None \<Rightarrow> [])
      in
      if cultural_kw q
      then and_then
             (if named \<and> name \<in> fst ` set cs
                 \<and> (case map_of cs name of
                       Some info \<Rightarrow> cultural_tips info \<noteq> None | None \<Rightarrow> False)
              then and_then (getitem cs name) (\<lambda>info.
                     case cultural_tips info of
                       Some tips \<Rightarrow> Inr tips | None \<Rightarrow> Inl KeyError)
              else Inr (fromkeys
                     (concat (map (\<lambda>(c, v). case cultural_tips v of
                                               Some tips \<Rightarrow> tips | None \<Rightarrow> []) cs))))
             (\<lambda>tips. Inr (CulturalTips (if named then name else ''general'') tips))
      else if attraction_kw q \<and> city = Some ''Ras Al Khaimah''
      then (let rak_recs = filter (\<lambda>x. contains x ''Ras Al Khaimah'')
                              (get_or acts ''relaxation'' [])
            in Inr (TopAttractions ''Ras Al Khaimah''
                      (if rak_recs \<noteq> [] then rak_recs
                       else [''Beach resorts in Ras Al Khaimah''])))
      else if attraction_kw q \<and> named \<and> name \<in> fst ` set cs
      then and_then (getitem cs name) (\<lambda>info.
             Inr (TopAttractions name
                    (case top_attractions info of Some xs \<Rightarrow> xs | None \<Rightarrow> [])))
      else if general_kw q
      then Inr (GeneralInfo general)
      else (case find (contains q) [''adventure'', ''culture'', ''relaxation''] of
              Some bucket \<Rightarrow> Inr (Category bucket (get_or acts bucket []))
            | None \<Rightarrow> Inr (WholeDocument doc)))"


section \<open>Facts about the heap and the preference stores\<close>

lemma map_of_store_all:
  "map_of (store_all kvs d) k =
     (case map_of (rev kvs) k of Some v \<Rightarrow> Some v | None \<Rightarrow> map_of d k)"
  unfolding store_all_def
proof (induction kvs arbitrary: d)
  case Nil
  then show ?case by simp
next
  case (Cons kv kvs)
  obtain k' v' where kv: "kv = (k', v')" by (cases kv)
  show ?case
    by (simp add: kv Cons.IH update_conv' map_add_def split: option.splits)
qed

lemma dict_of_write_same: "self < length h \<Longrightarrow> dict_of (h[self := DictObj d]) self = d"
  by (simp add: dict_of_def)

lemma dict_of_write_other: "a \<noteq> self \<Longrightarrow> dict_of (h[self := ob]) a = dict_of h a"
  by (simp add: dict_of_def)

lemma dict_of_append: "a < length h \<Longrightarrow> dict_of (h @ [ob]) a = dict_of h a"
  by (simp add: dict_of_def nth_append)

lemma dict_of_alloc_new: "dict_of (h @ [DictObj d]) (length h) = d"
  by (simp add: dict_of_def)

lemma is_dict_length: "is_dict h a \<Longrightarrow> a < length h"
  by (simp add: is_dict_def)

lemma mutate_top_level_frame:
  "top_level m \<Longrightarrow> mutate h a m = Inr h'
     \<Longrightarrow> length h' = length h \<and> (\<forall>b. b \<noteq> a \<longrightarrow> h' ! b = h ! b)"
  by (auto simp: mutate_def top_level_def Let_def split: dict_mutation.splits if_splits)

lemma mutate_all_top_level_frame:
  "list_all top_level ms \<Longrightarrow> mutate_all h a ms = (h', e)
     \<Longrightarrow> length h' = length h \<and> (\<forall>b. b \<noteq> a \<longrightarrow> h' ! b = h ! b)"
proof (induction ms arbitrary: h)
  case Nil
  then show ?case by simp
next
  case (Cons m ms)
  show ?case
  proof (cases "mutate h a m")
    case (Inl err)
    with Cons.prems show ?thesis by simp
  next
    case (Inr h1)
    with Cons.prems have "mutate_all h1 a ms = (h', e)" "list_all top_level ms" "top_level m"
      by simp_all
    from Cons.IH[OF this(2,1)] mutate_top_level_frame[OF this(3) Inr] show ?thesis by simp
  qed
qed

lemma take_old_heap:
  assumes "list_all top_level ms" and "mutate_all (h @ [ob]) (length h) ms = (h2, e)"
  shows "take (length h) h2 = h"
proof -
  from mutate_all_top_level_frame[OF assms]
  have len: "length h2 = Suc (length h)"
    and fr: "\<forall>b. b \<noteq> length h \<longrightarrow> h2 ! b = (h @ [ob]) ! b"
    by simp_all
  show ?thesis
    by (rule nth_equalityI) (use len fr in \<open>auto simp: nth_append\<close>)
qed

lemma list_at_Some:
  "list_at h x = Some xs \<Longrightarrow> address_of x < length h \<and> h ! address_of x = ListObj xs"
  by (auto simp: list_at_def address_of_def split: pyval.splits if_splits obj.splits)

lemma is_dict_update_dict:
  "a < length h \<Longrightarrow> is_dict (h[a := DictObj d]) b = (b = a \<or> is_dict h b)"
  by (auto simp: is_dict_def nth_list_update)

lemma is_dict_update_list:
  "l < length h \<Longrightarrow> h ! l = ListObj xs \<Longrightarrow> is_dict (h[l := ListObj ys]) b = is_dict h b"
  by (auto simp: is_dict_def nth_list_update)

lemma mutate_keeps_dicts:
  assumes "is_dict h a" and "mutate h a m = Inr h'"
  shows "length h' = length h \<and> (\<forall>b. is_dict h' b = is_dict h b)
         \<and> (\<forall>b. b \<noteq> a \<longrightarrow> is_dict h b \<longrightarrow> h' ! b = h ! b)"
proof (cases "top_level m")
  case True
  have len: "a < length h" using assms(1) by (simp add: is_dict_def)
  from assms(2) True obtain d where h': "h' = h[a := DictObj d]"
    by (auto simp: mutate_def top_level_def Let_def split: dict_mutation.splits if_splits)
  show ?thesis using assms(1) len by (auto simp: h' is_dict_update_dict)
next
  case False
  with assms(2) obtain x xs ys where
    l: "list_at h x = Some xs" and h': "h' = h[address_of x := ListObj ys]"
    by (auto simp: mutate_def top_level_def Let_def split: dict_mutation.splits option.splits)
  from list_at_Some[OF l] have 1: "address_of x < length h" "h ! address_of x = ListObj xs"
    by simp_all
  have nd: "\<not> is_dict h (address_of x)" using 1 by (simp add: is_dict_def)
  have "\<forall>b. is_dict h' b = is_dict h b" unfolding h' using is_dict_update_list[OF 1] by simp
  moreover have "\<forall>b. is_dict h b \<longrightarrow> h' ! b = h ! b"
    unfolding h' using nd by (metis nth_list_update_neq)
  ultimately show ?thesis by (simp add: h')
qed

lemma mutate_all_keeps_dicts:
  "is_dict h a \<Longrightarrow> mutate_all h a ms = (h', e)
     \<Longrightarrow> length h' = length h \<and> (\<forall>b. is_dict h' b = is_dict h b)
         \<and> (\<forall>b. b \<noteq> a \<longrightarrow> is_dict h b \<longrightarrow> h' ! b = h ! b)"
proof (induction ms arbitrary: h)
  case Nil
  then show ?case by simp
next
  case (Cons m ms)
  show ?case
  proof (cases "mutate h a m")
    case (Inl err)
    with Cons.prems show ?thesis by simp
  next
    case (Inr h1)
    from mutate_keeps_dicts[OF Cons.prems(1) Inr]
    have k: "length h1 = length h" "\<forall>b. is_dict h1 b = is_dict h b"
      "\<forall>b. b \<noteq> a \<longrightarrow> is_dict h b \<longrightarrow> h1 ! b = h ! b" by simp_all
    have d1: "is_dict h1 a" using k(2) Cons.prems(1) by simp
    from Inr Cons.prems(2) have "mutate_all h1 a ms = (h', e)" by simp
    from Cons.IH[OF d1 this] k show ?thesis by auto
  qed
qed

lemma map_of_preference_updates:
  "map_of (rev (preference_updates budget_level home_city language)) k =
     (if k = ''budget_level'' \<and> truthy budget_level then map_option PStr budget_level
      else if k = ''home_city'' \<and> truthy home_city then map_option PStr home_city
      else if k = ''language'' \<and> truthy language then map_option PStr language
      else None)"
  by (cases budget_level; cases home_city; cases language)
     (simp_all add: preference_updates_def truthy_def)

lemma set_preferences_fixed_unfold:
  "set_preferences_fixed h PREFS bl hc lang =
     (let h1 = h[PREFS := DictObj (store_all (preference_updates bl hc lang) (dict_of h PREFS))]
      in (dict_of h1 PREFS, h1 @ [DictObj (dict_of h1 PREFS)]))"
  by (simp add: set_preferences_fixed_def set_many_def get_all_def alloc_def Let_def
        dict_of_alloc_new)


section \<open>The tool \<^verbatim>\<open>set_preferences\<close> of \<^verbatim>\<open>tools.fixed.py\<close>\<close>

text \<open>
  Claim C9. A call of \<^verbatim>\<open>set_preferences\<close> (fixed variant) on an existing store writes
  \<open>budget_level\<close>, \<open>home_city\<close> and \<open>language\<close> only, each only when its argument is a
  non-empty string; every other key keeps its value (or stays absent), a key whose
  argument is \<^verbatim>\<open>None\<close> or empty keeps its stored value, every other object of the
  heap is untouched, and the reply is the new content of the store.
\<close>

theorem set_preferences_fixed_frame:
  assumes "is_dict h PREFS"
    and "set_preferences_fixed h PREFS budget_level home_city language = (reply, h')"
  shows "map_of (dict_of h' PREFS) k =
           (if k = ''budget_level'' \<and> truthy budget_level then map_option PStr budget_level
            else if k = ''home_city'' \<and> truthy home_city then map_option PStr home_city
            else if k = ''language'' \<and> truthy language then map_option PStr language
            else map_of (dict_of h PREFS) k)
         \<and> (\<forall>a < length h. a \<noteq> PREFS \<longrightarrow> h' ! a = h ! a)
         \<and> reply = dict_of h' PREFS"
proof -
  have len: "PREFS < length h" using assms(1) by (rule is_dict_length)
  define u where "u = preference_updates budget_level home_city language"
  define h1 where "h1 = h[PREFS := DictObj (store_all u (dict_of h PREFS))]"
  have h': "h' = h1 @ [DictObj (dict_of h1 PREFS)]" and reply: "reply = dict_of h1 PREFS"
    using assms(2) by (auto simp: set_preferences_fixed_unfold Let_def h1_def u_def)
  have len1: "PREFS < length h1" using len by (simp add: h1_def)
  have d1: "dict_of h1 PREFS = store_all u (dict_of h PREFS)"
    using len by (simp add: h1_def dict_of_write_same)
  have d': "dict_of h' PREFS = dict_of h1 PREFS"
    using len1 by (simp add: h' dict_of_append)
  have m: "map_of (dict_of h' PREFS) k =
      (case map_of (rev u) k of Some v \<Rightarrow> Some v | None \<Rightarrow> map_of (dict_of h PREFS) k)"
    by (simp add: d' d1 map_of_store_all)
  have 1: "map_of (dict_of h' PREFS) k =
           (if k = ''budget_level'' \<and> truthy budget_level then map_option PStr budget_level
            else if k = ''home_city'' \<and> truthy home_city then map_option PStr home_city
            else if k = ''language'' \<and> truthy language then map_option PStr language
            else map_of (dict_of h PREFS) k)"
    unfolding m u_def map_of_preference_updates
    by (cases budget_level; cases home_city; cases language) (simp_all add: truthy_def)
  have 2: "\<forall>a < length h. a \<noteq> PREFS \<longrightarrow> h' ! a = h ! a"
    by (simp add: h' h1_def nth_append)
  have 3: "reply = dict_of h' PREFS" by (simp add: reply d')
  from 1 2 3 show ?thesis by blast
qed

text \<open>On the freshly created store, \<^verbatim>\<open>set_preferences(budget_level="luxury",
  language="")\<close> replaces the budget level and leaves the language at \<^verbatim>\<open>"en"\<close>.\<close>

theorem set_preferences_fixed_frame_witness:
  "is_dict (snd (PreferencesStore_init_fixed [])) 0
   \<and> map_of (dict_of (snd (set_preferences_fixed (snd (PreferencesStore_init_fixed []))
        0 (Some ''luxury'') None (Some ''''))) 0) ''language'' = Some (PStr ''en'')
   \<and> map_of (dict_of (snd (set_preferences_fixed (snd (PreferencesStore_init_fixed []))
        0 (Some ''luxury'') None (Some ''''))) 0) ''budget_level'' = Some (PStr ''luxury'')"
proof -
  let ?h = "snd (PreferencesStore_init_fixed [])"
  have d: "is_dict ?h 0" by (simp add: is_dict_def PreferencesStore_init_fixed_def alloc_def)
  have old: "map_of (dict_of ?h 0) ''language'' = Some (PStr ''en'')"
    by (simp add: dict_of_def PreferencesStore_init_fixed_def alloc_def)
  obtain reply h' where
    r: "set_preferences_fixed ?h 0 (Some ''luxury'') None (Some '''') = (reply, h')"
    by (cases "set_preferences_fixed ?h 0 (Some ''luxury'') None (Some '''')")
  from set_preferences_fixed_frame[OF d r, of "''language''"]
       set_preferences_fixed_frame[OF d r, of "''budget_level''"]
  show ?thesis using d r old by (simp add: truthy_def)
qed


section \<open>Snapshots of the preference store\<close>

text \<open>
  Claim C10, as stated, has the store unaffected by every mutation applied to the
  returned mapping. \<^verbatim>\<open>dict(self._store)\<close> copies the entries, not the objects they
  refer to: in \<^verbatim>\<open>tools.py\<close> the snapshot and the store hold the same \<^verbatim>\<open>interests\<close>
  list. After \<^verbatim>\<open>snap = prefs.dump()\<close> and \<^verbatim>\<open>snap["interests"].append("beaches")\<close> the
  list that the store's \<^verbatim>\<open>get("interests")\<close> returns is \<^verbatim>\<open>["beaches"]\<close>, where it
  was empty before.
\<close>

theorem snapshot_shares_lists_counterexample:
  "list_at (snd (PreferencesStore_init []))
       (prefs_get (snd (PreferencesStore_init [])) 1 ''interests'' PNone) = Some []
   \<and> list_at
       (fst (mutate_all (snd (dump (snd (PreferencesStore_init [])) 1))
                        (fst (dump (snd (PreferencesStore_init [])) 1))
                        [ItemAppend ''interests'' (PStr ''beaches'')]))
       (prefs_get
          (fst (mutate_all (snd (dump (snd (PreferencesStore_init [])) 1))
                           (fst (dump (snd (PreferencesStore_init [])) 1))
                           [ItemAppend ''interests'' (PStr ''beaches'')]))
          1 ''interests'' PNone)
     = Some [PStr ''beaches'']"
  by code_simp

text \<open>
  Claim C10, amended. \<^verbatim>\<open>dump\<close> (\<^verbatim>\<open>tools.py\<close>) and \<^verbatim>\<open>get_all\<close> (\<^verbatim>\<open>tools.fixed.py\<close>)
  return a new dict object with the entries of the store, a shallow copy. Whatever
  sequence of mutations a caller applies to the returned dict, on the dict itself or
  through a list it holds, up to a first exception, the store's own dict is unchanged:
  every later \<^verbatim>\<open>get\<close> and every later snapshot yields, key by key, the same immediate
  value or the same object as before (\<open>ms\<close> ranges over all sequences of the mutations
  above, any in-place list method included). When the mutations are all on the dict itself
  (item assignment, deletion, \<^verbatim>\<open>pop\<close>, \<^verbatim>\<open>clear\<close>, \<^verbatim>\<open>update\<close>), every object that
  existed before the snapshot is unchanged as well. A list held as a value is shared
  with the snapshot, and a change made to it through the snapshot is seen through the
  store.
\<close>

theorem snapshot_is_fresh_copy:
  assumes "is_dict h self"
    and "dump h self = (snap, h1) \<or> get_all h self = (snap, h1)"
    and "mutate_all h1 snap ms = (h2, err)"
  shows "dict_of h1 snap = dict_of h self
         \<and> snap \<noteq> self
         \<and> dict_of h2 self = dict_of h self
         \<and> prefs_get h2 self k d = prefs_get h self k d
         \<and> dict_of (snd (get_all h2 self)) (fst (get_all h2 self)) = dict_of h self
         \<and> (list_all top_level ms \<longrightarrow> take (length h) h2 = h)"
proof -
  have len: "self < length h" using assms(1) by (rule is_dict_length)
  from assms(2) have snap: "snap = length h" and h1: "h1 = h @ [DictObj (dict_of h self)]"
    by (auto simp: dump_def get_all_def alloc_def)
  have a: "dict_of h1 snap = dict_of h self" by (simp add: snap h1 dict_of_alloc_new)
  have b: "snap \<noteq> self" using len snap by simp
  have ds: "is_dict h1 snap" by (simp add: is_dict_def snap h1)
  have dself: "is_dict h1 self" using assms(1) len by (simp add: is_dict_def h1 nth_append)
  from mutate_all_keeps_dicts[OF ds assms(3)] dself b
  have len2: "length h2 = Suc (length h)" and same: "h2 ! self = h1 ! self"
    by (simp_all add: h1)
  have e: "dict_of h2 self = dict_of h self"
    using len len2 same by (simp add: dict_of_def h1 nth_append)
  have f: "prefs_get h2 self k d = prefs_get h self k d" by (simp add: prefs_get_def e)
  have g: "dict_of (snd (get_all h2 self)) (fst (get_all h2 self)) = dict_of h self"
    by (simp add: get_all_def alloc_def dict_of_alloc_new e)
  have c: "take (length h) h2 = h" if "list_all top_level ms"
    using that assms(3) unfolding snap h1 by (rule take_old_heap)
  from a b c e f g show ?thesis by blast
qed

text \<open>The store of \<^verbatim>\<open>tools.py\<close> right after \<^verbatim>\<open>__init__\<close>: its snapshot is assigned to,
  deleted from and cleared; the store still answers \<^verbatim>\<open>"mid"\<close> and the two objects
  that existed before are as they were.\<close>

theorem snapshot_is_fresh_copy_witness:
  "is_dict (snd (PreferencesStore_init [])) 1
   \<and> fst (dump (snd (PreferencesStore_init [])) 1) = 2
   \<and> list_all top_level [SetItem ''budget_level'' (PStr ''luxe''), DelItem ''food'', Clear]
   \<and> prefs_get (fst (mutate_all (snd (dump (snd (PreferencesStore_init [])) 1)) 2
         [SetItem ''budget_level'' (PStr ''luxe''), DelItem ''food'', Clear])) 1 ''budget_level'' PNone
       = PStr ''mid''
   \<and> take 2 (fst (mutate_all (snd (dump (snd (PreferencesStore_init [])) 1)) 2
         [SetItem ''budget_level'' (PStr ''luxe''), DelItem ''food'', Clear]))
       = snd (PreferencesStore_init [])"
proof -
  let ?h = "snd (PreferencesStore_init [])"
  let ?ms = "[SetItem ''budget_level'' (PStr ''luxe''), DelItem ''food'', Clear]"
  have d: "is_dict ?h 1" by (simp add: is_dict_def PreferencesStore_init_def alloc_def)
  have s: "dump ?h 1 = (2, snd (dump ?h 1))"
    by (simp add: dump_def PreferencesStore_init_def alloc_def)
  obtain h2 err where m: "mutate_all (snd (dump ?h 1)) 2 ?ms = (h2, err)"
    by (cases "mutate_all (snd (dump ?h 1)) 2 ?ms")
  have old: "prefs_get ?h 1 ''budget_level'' PNone = PStr ''mid''"
    by (simp add: prefs_get_def dict_of_def PreferencesStore_init_def alloc_def)
  have f: "fst (dump ?h 1) = 2"
    by (simp add: dump_def PreferencesStore_init_def alloc_def)
  have t: "list_all top_level ?ms" by (simp add: top_level_def)
  have l: "length ?h = 2" by (simp add: PreferencesStore_init_def alloc_def)
  from snapshot_is_fresh_copy[OF d disjI1[OF s] m, of "''budget_level''" PNone]
  have "prefs_get h2 1 ''budget_level'' PNone = PStr ''mid''" "take 2 h2 = ?h"
    using old t l by simp_all
  then show ?thesis using d f m t by simp
qed


section \<open>Setting and reading preferences\<close>

lemma preference_set_then_get:
  assumes "is_dict h self"
  shows "prefs_get (prefs_set h self key v) self key d = v
       \<and> (map_of (rev upd) key = Some v \<longrightarrow> prefs_get (prefs_update h self upd) self key d = v)
       \<and> (key \<notin> fst ` set upd \<longrightarrow>
            prefs_get (prefs_update h self upd) self key d = prefs_get h self key d)
       \<and> (map_of (rev upd) key = Some v \<longrightarrow>
            map_of (dict_of (snd (get_all (snd (set_many h self upd)) self))
                            (fst (get_all (snd (set_many h self upd)) self))) key = Some v)
       \<and> (key \<notin> fst ` set upd \<longrightarrow>
            map_of (dict_of (snd (get_all (snd (set_many h self upd)) self))
                            (fst (get_all (snd (set_many h self upd)) self))) key
            = map_of (dict_of h self) key)"
proof -
  have len: "self < length h" using assms by (rule is_dict_length)
  have none: "key \<notin> fst ` set upd \<Longrightarrow> map_of (rev upd) key = None"
    by (simp add: map_of_eq_None_iff)
  have 1: "prefs_get (prefs_set h self key v) self key d = v"
    using len by (simp add: prefs_get_def prefs_set_def dict_of_write_same update_conv')
  have 2: "map_of (rev upd) key = Some v \<longrightarrow> prefs_get (prefs_update h self upd) self key d = v"
    using len by (simp add: prefs_get_def prefs_update_def dict_of_write_same map_of_store_all)
  have 3: "key \<notin> fst ` set upd \<longrightarrow>
            prefs_get (prefs_update h self upd) self key d = prefs_get h self key d"
    using len none
    by (simp add: prefs_get_def prefs_update_def dict_of_write_same map_of_store_all)
  have snap: "dict_of (snd (get_all (snd (set_many h self upd)) self))
                      (fst (get_all (snd (set_many h self upd)) self))
              = store_all upd (dict_of h self)"
    using len by (simp add: get_all_def set_many_def alloc_def dict_of_def nth_append)
  have 4: "map_of (rev upd) key = Some v \<longrightarrow>
            map_of (dict_of (snd (get_all (snd (set_many h self upd)) self))
                            (fst (get_all (snd (set_many h self upd)) self))) key = Some v"
    unfolding snap by (simp add: map_of_store_all)
  have 5: "key \<notin> fst ` set upd \<longrightarrow>
            map_of (dict_of (snd (get_all (snd (set_many h self upd)) self))
                            (fst (get_all (snd (set_many h self upd)) self))) key
            = map_of (dict_of h self) key"
    unfolding snap using none by (simp add: map_of_store_all)
  from 1 2 3 4 5 show ?thesis by blast
qed

lemma PreferencesStore_init_defaults:
  "PreferencesStore_init h = (self, h0) \<Longrightarrow>
     is_dict h0 self
     \<and> prefs_get h0 self ''budget_level'' d = PStr ''mid''
     \<and> prefs_get h0 self ''interests'' d = PRef (length h) \<and> h0 ! length h = ListObj []
     \<and> prefs_get h0 self ''food'' d = PNone
     \<and> (k \<notin> {''budget_level'', ''interests'', ''food''} \<longrightarrow> prefs_get h0 self k d = d)"
  by (auto simp: PreferencesStore_init_def alloc_def prefs_get_def dict_of_def is_dict_def
        nth_append)

lemma PreferencesStore_init_fixed_defaults:
  "PreferencesStore_init_fixed h = (self, h0) \<Longrightarrow>
     is_dict h0 self
     \<and> dict_of h0 self = [(''budget_level'', PStr ''standard''), (''home_city'', PNone),
                          (''language'', PStr ''en'')]"
  by (auto simp: PreferencesStore_init_fixed_def alloc_def dict_of_def is_dict_def)

text \<open>
  Claim C8, as stated, lists the defaults \<open>budget_level = "mid"\<close>, \<open>interests\<close> empty,
  \<open>home_city\<close> none and \<open>language = "en"\<close>. Neither store declares that set: in
  \<^verbatim>\<open>tools.py\<close> the key \<open>language\<close> is not in the initial dict, so \<^verbatim>\<open>get("language")\<close>
  is \<^verbatim>\<open>None\<close>; in \<^verbatim>\<open>tools.fixed.py\<close> the initial budget level is \<^verbatim>\<open>"standard"\<close>.
\<close>

theorem preference_defaults_counterexample:
  "prefs_get (snd (PreferencesStore_init [])) (fst (PreferencesStore_init [])) ''language'' PNone
     \<noteq> PStr ''en''
   \<and> map_of (dict_of (snd (PreferencesStore_init_fixed [])) (fst (PreferencesStore_init_fixed [])))
        ''budget_level'' \<noteq> Some (PStr ''mid'')"
  by (simp add: prefs_get_def dict_of_def PreferencesStore_init_def
        PreferencesStore_init_fixed_def alloc_def)

text \<open>
  Claim C8, amended. In both variants a write of a key followed by a read of that key
  gives the value written (\<^verbatim>\<open>set\<close> or \<^verbatim>\<open>update\<close> then \<^verbatim>\<open>get\<close> in \<^verbatim>\<open>tools.py\<close>;
  \<^verbatim>\<open>set_many\<close> then \<^verbatim>\<open>get_all\<close> in \<^verbatim>\<open>tools.fixed.py\<close>), and a write of other keys
  leaves the key as it was. A key never written reads as the variant's initial value: in
  \<^verbatim>\<open>tools.py\<close> \<open>budget_level\<close> is \<^verbatim>\<open>"mid"\<close>, \<open>interests\<close> is an empty list, \<open>food\<close> is
  \<^verbatim>\<open>None\<close>, and any other key (\<open>home_city\<close> and \<open>language\<close> among them) reads as the
  default the caller passes to \<^verbatim>\<open>get\<close>, which is \<^verbatim>\<open>None\<close> when omitted; in
  \<^verbatim>\<open>tools.fixed.py\<close> the initial dict is \<open>budget_level = "standard"\<close>, \<open>home_city\<close>
  \<^verbatim>\<open>None\<close>, \<open>language = "en"\<close>.
\<close>

theorem preferences_set_get_defaults:
  assumes "is_dict h self"
  shows "prefs_get (prefs_set h self key v) self key d = v
       \<and> (map_of (rev upd) key = Some v \<longrightarrow> prefs_get (prefs_update h self upd) self key d = v)
       \<and> (key \<notin> fst ` set upd \<longrightarrow>
            prefs_get (prefs_update h self upd) self key d = prefs_get h self key d)
       \<and> (map_of (rev upd) key = Some v \<longrightarrow>
            map_of (dict_of (snd (get_all (snd (set_many h self upd)) self))
                            (fst (get_all (snd (set_many h self upd)) self))) key = Some v)
       \<and> (key \<notin> fst ` set upd \<longrightarrow>
            map_of (dict_of (snd (get_all (snd (set_many h self upd)) self))
                            (fst (get_all (snd (set_many h self upd)) self))) key
            = map_of (dict_of h self) key)
       \<and> (PreferencesStore_init g = (s0, g0) \<longrightarrow>
            prefs_get g0 s0 ''budget_level'' d = PStr ''mid''
            \<and> prefs_get g0 s0 ''interests'' d = PRef (length g) \<and> g0 ! length g = ListObj []
            \<and> prefs_get g0 s0 ''food'' d = PNone
            \<and> (k \<notin> {''budget_level'', ''interests'', ''food''} \<longrightarrow> prefs_get g0 s0 k d = d))
       \<and> (PreferencesStore_init_fixed g = (s1, g1) \<longrightarrow>
            dict_of g1 s1 = [(''budget_level'', PStr ''standard''), (''home_city'', PNone),
                             (''language'', PStr ''en'')])"
  using preference_set_then_get[OF assms, of key v d upd]
    PreferencesStore_init_defaults[of g s0 g0 d k]
    PreferencesStore_init_fixed_defaults[of g s1 g1]
  by blast

theorem preferences_set_get_defaults_witness:
  "is_dict (snd (PreferencesStore_init [])) 1
   \<and> PreferencesStore_init [] = (1, snd (PreferencesStore_init []))
   \<and> PreferencesStore_init_fixed [] = (0, snd (PreferencesStore_init_fixed []))
   \<and> map_of (rev [(''budget_level'', PStr ''luxe'')]) ''budget_level'' = Some (PStr ''luxe'')
   \<and> ''language'' \<notin> fst ` set [(''budget_level'', PStr ''luxe'')]
   \<and> ''language'' \<notin> {''budget_level'', ''interests'', ''food''}
   \<and> prefs_get (prefs_update (snd (PreferencesStore_init [])) 1 [(''budget_level'', PStr ''luxe'')])
         1 ''budget_level'' PNone = PStr ''luxe''
   \<and> prefs_get (prefs_update (snd (PreferencesStore_init [])) 1 [(''budget_level'', PStr ''luxe'')])
         1 ''language'' PNone = PNone
   \<and> prefs_get (snd (PreferencesStore_init [])) 1 ''budget_level'' PNone = PStr ''mid''"
proof -
  let ?h = "snd (PreferencesStore_init [])"
  let ?u = "[(''budget_level'', PStr ''luxe'')]"
  have d: "is_dict ?h 1" by (simp add: is_dict_def PreferencesStore_init_def alloc_def)
  have i: "PreferencesStore_init [] = (1, ?h)" by (simp add: PreferencesStore_init_def alloc_def)
  have j: "PreferencesStore_init_fixed [] = (0, snd (PreferencesStore_init_fixed []))"
    by (simp add: PreferencesStore_init_fixed_def alloc_def)
  from preferences_set_get_defaults[OF d, of "''budget_level''" "PStr ''luxe''" PNone ?u
         "[]" 1 ?h "''language''" 0 "snd (PreferencesStore_init_fixed [])"]
       preferences_set_get_defaults[OF d, of "''language''" "PStr ''luxe''" PNone ?u
         "[]" 1 ?h "''language''" 0 "snd (PreferencesStore_init_fixed [])"]
  show ?thesis using d i j by simp
qed


section \<open>Facts about the budget estimators\<close>

lemma lower_mid: "lower ''mid'' = ''mid''"
  by (simp add: lower_def lower_char_def ascii_upper_def ascii_lower_def)

lemma and_then_Inr [simp]: "and_then (Inr v) f = f v"
  by (simp add: and_then_def)

lemma and_then_Inl [simp]: "and_then (Inl e) f = Inl e"
  by (simp add: and_then_def)

lemma and_then_assoc:
  "and_then (and_then r f) g = and_then r (\<lambda>x. and_then (f x) g)"
  by (cases r) simp_all

lemma and_then_eq_Inr:
  "and_then r f = Inr q \<longleftrightarrow> (\<exists>v. r = Inr v \<and> f v = Inr q)"
  by (cases r) simp_all

lemma getitem_Inr_iff: "getitem d k = Inr v \<longleftrightarrow> map_of d k = Some v"
  by (simp add: getitem_def split: option.splits)

lemma map_of_CITY_COSTS_None:
  "city \<notin> fst ` set CITY_COSTS \<Longrightarrow> map_of CITY_COSTS city = None"
  by (simp add: map_of_eq_None_iff)

lemma getitem_General:
  "getitem CITY_COSTS ''General'' = Inr [(''budget'', 50), (''mid'', 120), (''luxe'', 260)]"
  by (simp add: getitem_def CITY_COSTS_def)

lemma with_city_quote:
  "with_city city (JObj [(''assumptions_note'', n),
        (''inputs'', JObj [(''city'', JStr c0), (''days'', d), (''travellers'', t),
                          (''budget_level'', l)]),
        (''usd_breakdown'', b), (''total_usd'', tot)])
   = JObj [(''assumptions_note'', n),
        (''inputs'', JObj [(''city'', JStr city), (''days'', d), (''travellers'', t),
                          (''budget_level'', l)]),
        (''usd_breakdown'', b), (''total_usd'', tot)]"
  by (simp add: with_city_def)

lemma level_cases:
  "(if lvl0 \<notin> set [''budget'', ''mid'', ''luxe''] then ''mid'' else lvl0)
     \<in> {''budget'', ''mid'', ''luxe''}"
  by auto

lemma rate_rows:
  assumes "lvl \<in> {''budget'', ''mid'', ''luxe''}"
  shows "\<exists>r. getitem (case map_of CITY_COSTS city of Some row \<Rightarrow> row
                         | None \<Rightarrow> [(''budget'', 50), (''mid'', 120), (''luxe'', 260)]) lvl = Inr r"
    and "\<exists>r. getitem TRANSPORT_DAY lvl = Inr r"
    and "\<exists>r. getitem MEALS_DAY lvl = Inr r"
    and "\<exists>r. getitem ATTRACTIONS lvl = Inr r"
  using assms
  by (auto simp: getitem_def CITY_COSTS_def TRANSPORT_DAY_def MEALS_DAY_def ATTRACTIONS_def)

lemma ceil_times_1_10_zero: "ceil_times_1_10 0 = Inr 0"
  by code_simp

text \<open>\<^verbatim>\<open>tools.py\<close> replaces a level it does not know by \<^verbatim>\<open>"mid"\<close>.\<close>

lemma estimate_budget_coerces_level:
  assumes "b \<noteq> []" and "lower b \<notin> set [''budget'', ''mid'', ''luxe'']"
  shows "estimate_budget h prefs city days travellers (Some b) =
         estimate_budget h prefs city days travellers (Some ''mid'')"
proof -
  have 1: "str_lower (level_or_preference h prefs (Some b)) = Inr (lower b)"
    using assms(1) by (simp add: level_or_preference_def truthy_def str_lower_def)
  have 2: "str_lower (level_or_preference h prefs (Some ''mid'')) = Inr ''mid''"
    by (simp add: level_or_preference_def truthy_def str_lower_def lower_mid)
  have 3: "(if lower b \<notin> set [''budget'', ''mid'', ''luxe''] then ''mid'' else lower b) = ''mid''"
    using assms(2) by simp
  have 4: "(if ''mid'' \<notin> set [''budget'', ''mid'', ''luxe''] then ''mid'' else ''mid'') = ''mid''"
    by simp
  show ?thesis
    unfolding estimate_budget_def 1 2 and_then_Inr Let_def 3 4 ..
qed

text \<open>\<^verbatim>\<open>tools.py\<close> does not look at the sign of \<^verbatim>\<open>days\<close>: zero days give a quote.\<close>

lemma estimate_budget_days_zero:
  assumes "b \<noteq> []"
  shows "\<exists>q. estimate_budget h prefs city 0 travellers (Some b) = Inr q"
proof -
  have 1: "str_lower (level_or_preference h prefs (Some b)) = Inr (lower b)"
    using assms(1) by (simp add: level_or_preference_def truthy_def str_lower_def)
  define lvl where
    "lvl = (if lower b \<notin> set [''budget'', ''mid'', ''luxe''] then ''mid'' else lower b)"
  have in3: "lvl \<in> {''budget'', ''mid'', ''luxe''}" unfolding lvl_def by (rule level_cases)
  from rate_rows[OF in3] obtain r1 r2 r3 r4 where
    r: "getitem (case map_of CITY_COSTS city of Some row \<Rightarrow> row
                         | None \<Rightarrow> [(''budget'', 50), (''mid'', 120), (''luxe'', 260)]) lvl = Inr r1"
       "getitem TRANSPORT_DAY lvl = Inr r2" "getitem MEALS_DAY lvl = Inr r3"
       "getitem ATTRACTIONS lvl = Inr r4"
    by blast
  show ?thesis
    unfolding estimate_budget_def 1 and_then_Inr Let_def getitem_General lvl_def[symmetric] r
    by (simp add: ceil_times_1_10_zero)
qed

lemma estimate_budget_fixed_rejects:
  "normal_style L style \<notin> set [''budget'', ''standard'', ''luxury''] \<Longrightarrow>
     estimate_budget_fixed L city days style
       = Inr (JObj [(''error'', JStr ''style must be budget|standard|luxury'')])"
  "normal_style L style \<in> set [''budget'', ''standard'', ''luxury''] \<Longrightarrow> days \<le> 0 \<Longrightarrow>
     estimate_budget_fixed L city days style = Inr (JObj [(''error'', JStr ''days must be > 0'')])"
  by (simp_all add: estimate_budget_fixed_def Let_def)

text \<open>An omitted, \<^verbatim>\<open>None\<close> or empty style is the style \<^verbatim>\<open>"standard"\<close>.\<close>

lemma estimate_budget_fixed_default:
  "estimate_budget_fixed L city days None = estimate_budget_fixed L city days (Some ''standard'')"
  "estimate_budget_fixed L city days (Some [])
     = estimate_budget_fixed L city days (Some ''standard'')"
  by (simp_all add: estimate_budget_fixed_def normal_style_def truthy_def)


section \<open>Validation of the budget arguments\<close>

text \<open>
  Claim C3, as stated, has every call with a non-positive day count or an unknown tier
  fail with a validation error. \<^verbatim>\<open>estimate_budget\<close> of \<^verbatim>\<open>tools.py\<close> validates
  neither: with \<^verbatim>\<open>days = 0\<close> and \<^verbatim>\<open>budget_level = "platinum"\<close> it returns a quote, the
  level replaced by \<^verbatim>\<open>"mid"\<close> and every amount zero.
\<close>

theorem estimate_budget_no_validation_counterexample:
  "estimate_budget (snd (PreferencesStore_init [])) 1 ''Dubai'' 0 1 (Some ''platinum'')
   = Inr (JObj
       [(''assumptions_note'', JStr ''Rough averages; adjust to season and availability.''),
        (''inputs'', JObj [(''city'', JStr ''Dubai''), (''days'', JNum 0),
           (''travellers'', JNum 1), (''budget_level'', JStr ''mid'')]),
        (''usd_breakdown'', JObj [(''accommodation'', JNum 0), (''transport'', JNum 0),
           (''meals'', JNum 0), (''attractions'', JNum 0), (''buffer_10pct'', JNum 0)]),
        (''total_usd'', JNum 0)])"
  by code_simp

text \<open>
  Claim C3, amended. \<^verbatim>\<open>estimate_budget\<close> of \<^verbatim>\<open>tools.fixed.py\<close> answers a style that,
  after Python's \<^verbatim>\<open>lower()\<close> and \<^verbatim>\<open>strip()\<close> (the methods \<open>L\<close>, left open), is none of
  \<open>budget\<close>, \<open>standard\<close>, \<open>luxury\<close> with the payload
  \<^verbatim>\<open>{"error": "style must be budget|standard|luxury"}\<close>, and a recognised style with
  \<^verbatim>\<open>days <= 0\<close> with \<^verbatim>\<open>{"error": "days must be > 0"}\<close>; the failure is a returned
  payload naming the argument, not an exception, and no total is computed. A style that
  is omitted, \<^verbatim>\<open>None\<close> or empty counts as \<^verbatim>\<open>"standard"\<close>. \<^verbatim>\<open>estimate_budget\<close> of
  \<^verbatim>\<open>tools.py\<close> validates nothing: a level that, lower-cased, is none of \<open>budget\<close>,
  \<open>mid\<close>, \<open>luxe\<close> is replaced by \<^verbatim>\<open>"mid"\<close>, and zero days give a quote. (The three
  names are ASCII, and no string with a character outside ASCII is lower-cased by
  Python to one of them, so \<open>lower\<close> decides the membership as Python's method does.)
\<close>

theorem budget_argument_validation:
  "(normal_style L style \<notin> set [''budget'', ''standard'', ''luxury''] \<longrightarrow>
      estimate_budget_fixed L city days style
        = Inr (JObj [(''error'', JStr ''style must be budget|standard|luxury'')]))
   \<and> (normal_style L style \<in> set [''budget'', ''standard'', ''luxury''] \<and> days \<le> 0 \<longrightarrow>
      estimate_budget_fixed L city days style
        = Inr (JObj [(''error'', JStr ''days must be > 0'')]))
   \<and> estimate_budget_fixed L city days None
       = estimate_budget_fixed L city days (Some ''standard'')
   \<and> estimate_budget_fixed L city days (Some [])
       = estimate_budget_fixed L city days (Some ''standard'')
   \<and> (b \<noteq> [] \<and> lower b \<notin> set [''budget'', ''mid'', ''luxe''] \<longrightarrow>
      estimate_budget h prefs city days travellers (Some b)
        = estimate_budget h prefs city days travellers (Some ''mid''))
   \<and> (b \<noteq> [] \<longrightarrow> (\<exists>q. estimate_budget h prefs city 0 travellers (Some b) = Inr q))"
proof -
  have 1: "normal_style L style \<notin> set [''budget'', ''standard'', ''luxury''] \<longrightarrow>
      estimate_budget_fixed L city days style
        = Inr (JObj [(''error'', JStr ''style must be budget|standard|luxury'')])"
    using estimate_budget_fixed_rejects(1) by blast
  have 2: "normal_style L style \<in> set [''budget'', ''standard'', ''luxury''] \<and> days \<le> 0 \<longrightarrow>
      estimate_budget_fixed L city days style
        = Inr (JObj [(''error'', JStr ''days must be > 0'')])"
    using estimate_budget_fixed_rejects(2) by blast
  have 3: "b \<noteq> [] \<and> lower b \<notin> set [''budget'', ''mid'', ''luxe''] \<longrightarrow>
      estimate_budget h prefs city days travellers (Some b)
        = estimate_budget h prefs city days travellers (Some ''mid'')"
    using estimate_budget_coerces_level by blast
  have 4: "b \<noteq> [] \<longrightarrow> (\<exists>q. estimate_budget h prefs city 0 travellers (Some b) = Inr q)"
    using estimate_budget_days_zero by blast
  show ?thesis
    using 1 2 3 4 estimate_budget_fixed_default(1)[of L city days]
      estimate_budget_fixed_default(2)[of L city days]
    by (intro conjI) assumption+
qed

lemma normal_style_platinum: "normal_style ascii_methods (Some ''platinum'') = ''platinum''"
  by code_simp
lemma normal_style_luxury: "normal_style ascii_methods (Some ''luxury'') = ''luxury''"
  by code_simp
lemma lower_platinum: "lower ''platinum'' = ''platinum''"
  by code_simp

text \<open>The fixed variant rejects \<^verbatim>\<open>"platinum"\<close> and zero days; \<^verbatim>\<open>tools.py\<close> treats
  \<^verbatim>\<open>"platinum"\<close> as \<^verbatim>\<open>"mid"\<close> and quotes zero days.\<close>

theorem budget_argument_validation_witness:
  "normal_style ascii_methods (Some ''platinum'') \<notin> set [''budget'', ''standard'', ''luxury'']
   \<and> estimate_budget_fixed ascii_methods ''Dubai'' 3 (Some ''platinum'')
       = Inr (JObj [(''error'', JStr ''style must be budget|standard|luxury'')])
   \<and> normal_style ascii_methods (Some ''luxury'') \<in> set [''budget'', ''standard'', ''luxury''] \<and> (0::int) \<le> 0
   \<and> estimate_budget_fixed ascii_methods ''Dubai'' 0 (Some ''luxury'')
       = Inr (JObj [(''error'', JStr ''days must be > 0'')])
   \<and> ''platinum'' \<noteq> [] \<and> lower ''platinum'' \<notin> set [''budget'', ''mid'', ''luxe'']
   \<and> estimate_budget (snd (PreferencesStore_init [])) 1 ''Dubai'' 2 1 (Some ''platinum'')
       = estimate_budget (snd (PreferencesStore_init [])) 1 ''Dubai'' 2 1 (Some ''mid'')
   \<and> (\<exists>q. estimate_budget (snd (PreferencesStore_init [])) 1 ''Dubai'' 0 1 (Some ''platinum'')
            = Inr q)"
proof -
  have a: "normal_style ascii_methods (Some ''platinum'') \<notin> set [''budget'', ''standard'', ''luxury'']"
    by (simp add: normal_style_platinum)
  have b: "normal_style ascii_methods (Some ''luxury'') \<in> set [''budget'', ''standard'', ''luxury'']"
    by (simp add: normal_style_luxury)
  have c: "''platinum'' \<noteq> [] \<and> lower ''platinum'' \<notin> set [''budget'', ''mid'', ''luxe'']"
    by (simp add: lower_platinum)
  from budget_argument_validation[where L = ascii_methods and style = "Some ''platinum''" and city = "''Dubai''"
         and days = 3 and b = "''platinum''" and h = "snd (PreferencesStore_init [])"
         and prefs = 1 and travellers = 1]
       budget_argument_validation[where L = ascii_methods and style = "Some ''luxury''" and city = "''Dubai''"
         and days = 0 and b = "''platinum''" and h = "snd (PreferencesStore_init [])"
         and prefs = 1 and travellers = 1]
       budget_argument_validation[where L = ascii_methods and style = "Some ''luxury''" and city = "''Dubai''"
         and days = 2 and b = "''platinum''" and h = "snd (PreferencesStore_init [])"
         and prefs = 1 and travellers = 1]
  show ?thesis
    by (simp add: normal_style_platinum normal_style_luxury lower_platinum)
qed


section \<open>Rounding in the total of a quote\<close>

text \<open>
  The binary product never falls below the exact one by a whole unit and never exceeds
  it by one: for a subtotal below \<open>2^47\<close> the value of \<^verbatim>\<open>math.ceil(subtotal * 1.10)\<close>
  is the ceiling of \<open>1.10 * subtotal\<close> or that ceiling plus one.
\<close>

lemma bit_length_bounds:
  "0 < n \<Longrightarrow> 2 ^ (bit_length n - 1) \<le> n \<and> n < 2 ^ bit_length n"
proof (induction n rule: bit_length.induct)
  case (1 n)
  have bl: "bit_length n = Suc (bit_length (n div 2))"
    using "1.prems" by (subst bit_length.simps) simp
  show ?case
  proof (cases "n div 2 = 0")
    case True
    then have n1: "n = 1" using "1.prems" by linarith
    have b1: "bit_length n = 1" using bl True by (simp add: bit_length.simps[of 0])
    show ?thesis unfolding b1 using n1 by simp
  next
    case False
    then have pos: "0 < n div 2" using "1.prems" by linarith
    from "1.IH" "1.prems" pos
    have ih: "2 ^ (bit_length (n div 2) - 1) \<le> n div 2" "n div 2 < 2 ^ bit_length (n div 2)"
      by simp_all
    have blpos: "0 < bit_length (n div 2)"
      using pos by (subst bit_length.simps) simp
    then obtain k where k: "bit_length (n div 2) = Suc k" by (cases "bit_length (n div 2)") simp_all
    have "2 ^ Suc k \<le> 2 * (n div 2)" using ih(1) by (simp add: k)
    also have "\<dots> \<le> n" by linarith
    finally have lo: "2 ^ (bit_length n - 1) \<le> n" by (simp add: bl k)
    have "n < 2 * (n div 2) + 2" by linarith
    also have "\<dots> \<le> 2 * 2 ^ bit_length (n div 2)" using ih(2) by linarith
    finally have hi: "n < 2 ^ bit_length n" by (simp add: bl)
    from lo hi show ?thesis by blast
  qed
qed

lemma round_half_even_bounds:
  "round_half_even n sh * 2 ^ sh \<le> n + 2 ^ sh \<and> n - 2 ^ sh < round_half_even n sh * 2 ^ sh"
proof -
  define p :: int where "p = 2 ^ sh"
  have ppos: "0 < p" by (simp add: p_def)
  define q where "q = n div p"
  have d: "n = q * p + n mod p" by (simp add: q_def)
  have r: "0 \<le> n mod p" "n mod p < p" using ppos by simp_all
  have m: "round_half_even n sh = q \<or> round_half_even n sh = q + 1"
    by (auto simp: round_half_even_def Let_def q_def p_def)
  have 1: "q * p \<le> n" using d r by linarith
  have 2: "n < (q + 1) * p" using d r by (simp add: algebra_simps)
  from m show ?thesis
  proof
    assume "round_half_even n sh = q"
    then show ?thesis using 1 2 ppos by (simp add: p_def[symmetric] algebra_simps)
  next
    assume "round_half_even n sh = q + 1"
    then show ?thesis using 1 2 ppos by (simp add: p_def[symmetric] algebra_simps)
  qed
qed

lemma to_binary64_small:
  assumes "0 \<le> n" "n < 2 ^ 53"
  shows "to_binary64 n = (n, 0)"
proof -
  have "bit_length n \<le> 53"
  proof (cases "n = 0")
    case True
    then show ?thesis by (simp add: bit_length.simps)
  next
    case False
    then have "0 < n" using assms(1) by simp
    from bit_length_bounds[OF this] have "(2::int) ^ (bit_length n - 1) \<le> n" by blast
    from this assms(2) have "(2::int) ^ (bit_length n - 1) < 2 ^ 53" by (rule le_less_trans)
    then have "bit_length n - 1 < 53" by (rule power_less_imp_less_exp[rotated]) simp
    then show ?thesis by simp
  qed
  then show ?thesis by (simp add: to_binary64_def round_half_even_def)
qed

lemma ceil_div_bounds:
  fixes W D :: int
  assumes "0 < D"
  shows "(- ((- W) div D) - 1) * D < W \<and> W \<le> - ((- W) div D) * D"
proof -
  define k where "k = (- W) div D"
  have d: "- W = k * D + (- W) mod D" by (simp add: k_def)
  have r: "0 \<le> (- W) mod D" "(- W) mod D < D" using assms by simp_all
  have "(- k - 1) * D = - (k * D) - D" by (simp add: algebra_simps)
  moreover have "- k * D = - (k * D)" by simp
  ultimately show ?thesis unfolding k_def[symmetric] using d r by linarith
qed

lemma ceil_times_1_10_within_one:
  assumes "0 \<le> n" and "n < 2 ^ 47"
  shows "\<exists>t. ceil_times_1_10 n = Inr t
           \<and> - ((- (11 * n)) div 10) \<le> t \<and> t \<le> - ((- (11 * n)) div 10) + 1"
proof (cases "n = 0")
  case True
  then show ?thesis by (simp add: ceil_times_1_10_zero)
next
  case False
  then have npos: "1 \<le> n" using assms(1) by simp
  define D :: int where "D = 2 ^ 52"
  have Dval: "D = 4503599627370496" by (simp add: D_def)
  define P where "P = n * one_point_ten"
  have Pval: "P = n * 4953959590107546" by (simp add: P_def one_point_ten_def)
  have n53: "n < 2 ^ 53" using assms(2) by simp
  have n47: "n < 140737488355328" using assms(2) by simp
  have tb1: "to_binary64 \<bar>n\<bar> = (n, 0)"
    using to_binary64_small[OF assms(1) n53] assms(1) by simp
  have Ppos: "0 < P" using npos by (simp add: Pval)
  have Plo: "(2::int) ^ 52 \<le> P" using npos by (simp add: Pval)
  have Phi: "P < (2::int) ^ 100" using assms(2) by (simp add: Pval)
  define bl where "bl = bit_length P"
  from bit_length_bounds[OF Ppos]
  have b1: "(2::int) ^ (bl - 1) \<le> P" and b2: "P < (2::int) ^ bl" by (simp_all add: bl_def)
  from Plo b2 have "(2::int) ^ 52 < 2 ^ bl" by (rule le_less_trans)
  then have bl52: "52 < bl" by (rule power_less_imp_less_exp[rotated]) simp
  from b1 Phi have "(2::int) ^ (bl - 1) < 2 ^ 100" by (rule le_less_trans)
  then have bl100: "bl - 1 < 100" by (rule power_less_imp_less_exp[rotated]) simp
  define s2 where "s2 = bl - 53"
  have s2le: "s2 \<le> 47" using bl100 by (simp add: s2_def)
  define E :: int where "E = 2 ^ s2"
  have Epos: "0 < E" by (simp add: E_def)
  have "E \<le> 2 ^ 47" unfolding E_def using s2le by (intro power_increasing) simp_all
  then have Ele: "E \<le> 140737488355328" by simp
  define m2 where "m2 = round_half_even P s2"
  have tb2: "to_binary64 (n * one_point_ten) = (m2, s2)"
    by (simp add: to_binary64_def Let_def m2_def s2_def bl_def P_def)
  define W where "W = m2 * E"
  from round_half_even_bounds[of P s2]
  have W1: "W \<le> P + E" and W2: "P - E < W" by (simp_all add: W_def m2_def E_def)
  have Wpos: "0 < W" using W2 Plo Ele by (simp add: Dval) 
  have m2pos: "0 \<le> m2"
  proof (rule ccontr)
    assume "\<not> 0 \<le> m2"
    then have "m2 * E \<le> 0" using Epos by (simp add: mult_le_0_iff)
    with Wpos show False by (simp add: W_def)
  qed
  define F :: int where "F = 2 ^ (52 - s2)"
  have Fpos: "0 < F" by (simp add: F_def)
  have FE: "F * E = D" unfolding F_def E_def D_def using s2le by (simp add: power_add[symmetric])
  have no_ov1: "\<not> (n * 2 ^ 0 \<ge> (2::int) ^ 1024)"
  proof -
    have "n < (2::int) ^ 1024"
      using assms(2) by (rule less_le_trans) (rule power_increasing, simp_all)
    then show ?thesis by simp
  qed
  have "W < (2::int) ^ 101"
  proof -
    have "W < 2 ^ 100 + 2 ^ 47" using W1 Phi \<open>E \<le> 2 ^ 47\<close> by linarith
    also have "\<dots> \<le> (2::int) ^ 101" by simp
    finally show ?thesis .
  qed
  then have "W < (2::int) ^ 1076"
    by (rule less_le_trans) (rule power_increasing, simp_all)
  then have no_ov2: "\<not> (m2 * 2 ^ (0 + s2) \<ge> (2::int) ^ 1076)"
    by (simp add: W_def E_def)
  define t where "t = - ((- m2) div F)"
  have res: "ceil_times_1_10 n = Inr t"
    unfolding ceil_times_1_10_def tb1 prod.case Let_def tb2
    using no_ov1 no_ov2 s2le assms(1) by (simp add: t_def F_def)
  have "(- W) div D = (- m2) div F"
  proof -
    have "(- W) div D = ((- m2) * E) div (F * E)" by (simp add: W_def FE)
    also have "\<dots> = (- m2) div F" by (rule div_mult_mult2) (use Epos in simp)
    finally show ?thesis .
  qed
  then have tW: "t = - ((- W) div D)" by (simp add: t_def)
  have Dpos: "0 < D" by (simp add: D_def)
  from ceil_div_bounds[OF Dpos, of W]
  have t1: "(t - 1) * D < W" and t2: "W \<le> t * D" by (simp_all add: tW)
  define c where "c = - ((- (11 * n)) div 10)"
  from ceil_div_bounds[of 10 "11 * n"]
  have c1: "(c - 1) * 10 < 11 * n" and c2: "11 * n \<le> c * 10" by (simp_all add: c_def)
  have lower: "c \<le> t"
  proof (rule ccontr)
    assume "\<not> c \<le> t"
    then have "t \<le> c - 1" by simp
    then have "t * D \<le> (c - 1) * D" using Dpos by (simp add: mult_right_mono)
    with t2 have "W \<le> (c - 1) * D" by linarith
    moreover have "(c - 1) * 10 \<le> 11 * n - 1" using c1 by linarith
    then have "(c - 1) * 10 * D \<le> (11 * n - 1) * D" using Dpos by (simp add: mult_right_mono)
    ultimately have "10 * W \<le> (11 * n - 1) * D" by (simp add: algebra_simps)
    then have "10 * W \<le> 11 * n * 4503599627370496 - 4503599627370496"
      by (simp add: Dval algebra_simps)
    with W2 Ele assms(1) show False unfolding Pval by linarith
  qed
  have upper: "t \<le> c + 1"
  proof (rule ccontr)
    assume "\<not> t \<le> c + 1"
    then have "c + 1 \<le> t - 1" by simp
    then have "(c + 1) * D \<le> (t - 1) * D" using Dpos by (simp add: mult_right_mono)
    with t1 have "(c + 1) * D < W" by linarith
    moreover have "11 * n * D \<le> c * 10 * D" using c2 Dpos by (simp add: mult_right_mono)
    ultimately have "11 * n * D + 10 * D < 10 * W" by (simp add: algebra_simps)
    then have "11 * n * 4503599627370496 + 45035996273704960 < 10 * W"
      by (simp add: Dval algebra_simps)
    with W1 Ele n47 show False unfolding Pval by linarith
  qed
  from res lower upper show ?thesis unfolding c_def by blast
qed

lemma ceiling_times_1_10: "\<lceil>real_of_int s * 1.10\<rceil> = - ((- (11 * s)) div 10)"
proof -
  have "real_of_int s * 1.10 = real_of_int (11 * s) / real_of_int 10" by simp
  then show ?thesis by (simp only: ceiling_divide_eq_div)
qed

lemma rate_bounds:
  "getitem (case map_of CITY_COSTS city of Some row \<Rightarrow> row
            | None \<Rightarrow> [(''budget'', 50), (''mid'', 120), (''luxe'', 260)]) lvl = Inr r
     \<Longrightarrow> 0 \<le> r \<and> r \<le> 260"
  "getitem TRANSPORT_DAY lvl = Inr t \<Longrightarrow> 0 \<le> t \<and> t \<le> 60"
  "getitem MEALS_DAY lvl = Inr m \<Longrightarrow> 0 \<le> m \<and> m \<le> 80"
  "getitem ATTRACTIONS lvl = Inr a \<Longrightarrow> 0 \<le> a \<and> a \<le> 50"
  by (auto simp: getitem_Inr_iff CITY_COSTS_def TRANSPORT_DAY_def MEALS_DAY_def ATTRACTIONS_def
        split: if_splits)

lemma estimate_budget_quote:
  assumes "estimate_budget h prefs city days travellers budget_level = Inr q"
  shows "\<exists>lvl rate t m a total.
           getitem (case map_of CITY_COSTS city of Some row \<Rightarrow> row
                    | None \<Rightarrow> [(''budget'', 50), (''mid'', 120), (''luxe'', 260)]) lvl = Inr rate
         \<and> getitem TRANSPORT_DAY lvl = Inr t
         \<and> getitem MEALS_DAY lvl = Inr m
         \<and> getitem ATTRACTIONS lvl = Inr a
         \<and> ceil_times_1_10 (rate * days * travellers + t * days * travellers
                              + m * days * travellers + a * days * travellers) = Inr total
         \<and> q = JObj
              [(''assumptions_note'', JStr ''Rough averages; adjust to season and availability.''),
               (''inputs'', JObj [(''city'', JStr city), (''days'', JNum days),
                                 (''travellers'', JNum travellers), (''budget_level'', JStr lvl)]),
               (''usd_breakdown'',
                  JObj [(''accommodation'', JNum (rate * days * travellers)),
                        (''transport'', JNum (t * days * travellers)),
                        (''meals'', JNum (m * days * travellers)),
                        (''attractions'', JNum (a * days * travellers)),
                        (''buffer_10pct'', JNum (total -
                           (rate * days * travellers + t * days * travellers
                            + m * days * travellers + a * days * travellers)))]),
               (''total_usd'', JNum total)]"
  using assms
  unfolding estimate_budget_def Let_def getitem_General and_then_Inr and_then_eq_Inr
  by blast

lemma estimate_budget_total_within_one:
  assumes "estimate_budget h prefs city days travellers budget_level = Inr q"
    and "0 < days" and "1 \<le> travellers" and "days * travellers < 2 ^ 38"
  shows "\<exists>subtotal total.
           Option.bind (field ''usd_breakdown'' q) (field ''buffer_10pct'')
             = Some (JNum (total - subtotal))
         \<and> field ''total_usd'' q = Some (JNum total)
         \<and> \<lceil>real_of_int subtotal * 1.10\<rceil> \<le> total
         \<and> total \<le> \<lceil>real_of_int subtotal * 1.10\<rceil> + 1"
proof -
  from estimate_budget_quote[OF assms(1)] obtain lvl rate t m a total where
    r: "getitem (case map_of CITY_COSTS city of Some row \<Rightarrow> row
                    | None \<Rightarrow> [(''budget'', 50), (''mid'', 120), (''luxe'', 260)]) lvl = Inr rate"
       "getitem TRANSPORT_DAY lvl = Inr t" "getitem MEALS_DAY lvl = Inr m"
       "getitem ATTRACTIONS lvl = Inr a"
    and c: "ceil_times_1_10 (rate * days * travellers + t * days * travellers
                              + m * days * travellers + a * days * travellers) = Inr total"
    and q: "q = JObj
              [(''assumptions_note'', JStr ''Rough averages; adjust to season and availability.''),
               (''inputs'', JObj [(''city'', JStr city), (''days'', JNum days),
                                 (''travellers'', JNum travellers), (''budget_level'', JStr lvl)]),
               (''usd_breakdown'',
                  JObj [(''accommodation'', JNum (rate * days * travellers)),
                        (''transport'', JNum (t * days * travellers)),
                        (''meals'', JNum (m * days * travellers)),
                        (''attractions'', JNum (a * days * travellers)),
                        (''buffer_10pct'', JNum (total -
                           (rate * days * travellers + t * days * travellers
                            + m * days * travellers + a * days * travellers)))]),
               (''total_usd'', JNum total)]"
    by blast
  define dt where "dt = days * travellers"
  define k where "k = rate + t + m + a"
  define subtotal where "subtotal = rate * days * travellers + t * days * travellers
                              + m * days * travellers + a * days * travellers"
  have sub: "subtotal = k * dt" by (simp add: subtotal_def k_def dt_def algebra_simps)
  from rate_bounds(1)[OF r(1)] rate_bounds(2)[OF r(2)] rate_bounds(3)[OF r(3)]
    rate_bounds(4)[OF r(4)]
  have k: "0 \<le> k" "k \<le> 450" by (simp_all add: k_def)
  have dtpos: "0 < dt" using assms(2,3) by (simp add: dt_def)
  have dthi: "dt < 274877906944" using assms(4) by (simp add: dt_def)
  have s0: "0 \<le> subtotal" using k dtpos by (simp add: sub)
  have "subtotal \<le> 450 * dt" unfolding sub using k dtpos by (simp add: mult_right_mono)
  then have "subtotal < 2 ^ 47" using dthi by simp
  from ceil_times_1_10_within_one[OF s0 this] c[folded subtotal_def]
  have b: "- ((- (11 * subtotal)) div 10) \<le> total" "total \<le> - ((- (11 * subtotal)) div 10) + 1"
    by simp_all
  have f1: "Option.bind (field ''usd_breakdown'' q) (field ''buffer_10pct'')
             = Some (JNum (total - subtotal))"
    unfolding q subtotal_def by simp
  have f2: "field ''total_usd'' q = Some (JNum total)" unfolding q by simp
  from f1 f2 b show ?thesis unfolding ceiling_times_1_10 by blast
qed


section \<open>The cost row of an unknown city\<close>

text \<open>For a usable level and a positive number of traveller-days below \<open>2^38\<close>,
  \<^verbatim>\<open>estimate_budget\<close> of \<^verbatim>\<open>tools.py\<close> returns a quote.\<close>

lemma estimate_budget_returns:
  assumes "level_or_preference h prefs budget_level = PStr b"
    and "0 < days" and "1 \<le> travellers" and "days * travellers < 2 ^ 38"
  shows "\<exists>q. estimate_budget h prefs city days travellers budget_level = Inr q"
proof -
  have 1: "str_lower (level_or_preference h prefs budget_level) = Inr (lower b)"
    by (simp add: assms(1) str_lower_def)
  define lvl where
    "lvl = (if lower b \<notin> set [''budget'', ''mid'', ''luxe''] then ''mid'' else lower b)"
  have in3: "lvl \<in> {''budget'', ''mid'', ''luxe''}" unfolding lvl_def by (rule level_cases)
  from rate_rows[OF in3] obtain r1 r2 r3 r4 where
    r: "getitem (case map_of CITY_COSTS city of Some row \<Rightarrow> row
                         | None \<Rightarrow> [(''budget'', 50), (''mid'', 120), (''luxe'', 260)]) lvl = Inr r1"
       "getitem TRANSPORT_DAY lvl = Inr r2" "getitem MEALS_DAY lvl = Inr r3"
       "getitem ATTRACTIONS lvl = Inr r4"
    by blast
  define dt where "dt = days * travellers"
  define k where "k = r1 + r2 + r3 + r4"
  define subtotal where "subtotal = r1 * days * travellers + r2 * days * travellers
                              + r3 * days * travellers + r4 * days * travellers"
  have sub: "subtotal = k * dt" by (simp add: subtotal_def k_def dt_def algebra_simps)
  from rate_bounds(1)[OF r(1)] rate_bounds(2)[OF r(2)] rate_bounds(3)[OF r(3)]
    rate_bounds(4)[OF r(4)]
  have k: "0 \<le> k" "k \<le> 450" by (simp_all add: k_def)
  have dtpos: "0 < dt" using assms(2,3) by (simp add: dt_def)
  have dthi: "dt < 274877906944" using assms(4) by (simp add: dt_def)
  have s0: "0 \<le> subtotal" using k dtpos by (simp add: sub)
  have "subtotal \<le> 450 * dt" unfolding sub using k dtpos by (simp add: mult_right_mono)
  then have "subtotal < 2 ^ 47" using dthi by simp
  from ceil_times_1_10_within_one[OF s0 this] obtain total where
    c: "ceil_times_1_10 subtotal = Inr total" by blast
  show ?thesis
    unfolding estimate_budget_def 1 and_then_Inr Let_def getitem_General lvl_def[symmetric] r
      subtotal_def[symmetric] c
    by simp
qed

text \<open>\<^verbatim>\<open>estimate_budget\<close> of \<^verbatim>\<open>tools.fixed.py\<close> only echoes the city: every other
  member of its result is the same for any two cities.\<close>

lemma estimate_budget_fixed_city_echo:
  assumes "k \<noteq> ''city''"
  shows "and_then (estimate_budget_fixed L c1 days style) (\<lambda>q. Inr (field k q))
       = and_then (estimate_budget_fixed L c2 days style) (\<lambda>q. Inr (field k q))"
proof -
  define st where "st = normal_style L style"
  show ?thesis
  proof (cases "st \<in> set [''budget'', ''standard'', ''luxury''] \<and> 0 < days")
    case False
    then show ?thesis
      by (auto simp: estimate_budget_fixed_def Let_def st_def)
  next
    case True
    then obtain rate where
      "getitem [(''budget'', 150), (''standard'', 400), (''luxury'', 1000)] st = Inr (rate::int)"
      by (auto simp: getitem_def)
    then show ?thesis
      using True assms by (auto simp: estimate_budget_fixed_def Let_def st_def[symmetric])
  qed
qed

text \<open>
  Claim C7, as stated, has the estimate of an unknown city use the \<^verbatim>\<open>"General"\<close> row.
  \<^verbatim>\<open>estimate_budget\<close> of \<^verbatim>\<open>tools.fixed.py\<close> has no table keyed by city and no General
  row; for the claim's example, city \<^verbatim>\<open>"Unknown City"\<close>, two days, tier \<^verbatim>\<open>"mid"\<close>, it
  returns no total at all but the style-error payload.
\<close>

theorem estimate_budget_fixed_no_General_counterexample:
  "estimate_budget_fixed ascii_methods ''Unknown City'' 2 (Some ''mid'')
   = Inr (JObj [(''error'', JStr ''style must be budget|standard|luxury'')])"
  by code_simp

text \<open>
  Claim C7, amended. For a city that is not a key of \<^verbatim>\<open>CITY_COSTS\<close>, \<^verbatim>\<open>estimate_budget\<close>
  of \<^verbatim>\<open>tools.py\<close> takes the accommodation rate from the row \<^verbatim>\<open>"General"\<close>: the result
  is the result for the city \<^verbatim>\<open>"General"\<close> with the echoed city name replaced, so it is
  the same for every unknown city and every call; with a level given or stored as a
  string, \<open>days > 0\<close>, \<open>travellers >= 1\<close> and fewer than \<open>2^38\<close> traveller-days a quote
  is returned; and the accommodation line of a quote is the General rate of the level
  used (50, 120 or 260) times days times travellers. \<^verbatim>\<open>estimate_budget\<close> of
  \<^verbatim>\<open>tools.fixed.py\<close> has no General row: its result depends on the style and the days,
  and the city is only echoed.
\<close>

theorem unknown_city_uses_General_row:
  assumes "city \<notin> fst ` set CITY_COSTS"
  shows "estimate_budget h prefs city days travellers budget_level =
           and_then (estimate_budget h prefs ''General'' days travellers budget_level)
                    (\<lambda>q. Inr (with_city city q))
         \<and> (level_or_preference h prefs budget_level = PStr b
              \<and> 0 < days \<and> 1 \<le> travellers \<and> days * travellers < 2 ^ 38 \<longrightarrow>
              (\<exists>q. estimate_budget h prefs city days travellers budget_level = Inr q))
         \<and> (\<forall>q. estimate_budget h prefs city days travellers budget_level = Inr q \<longrightarrow>
              (\<exists>lvl rate.
                 Option.bind (field ''inputs'' q) (field ''budget_level'') = Some (JStr lvl)
                 \<and> map_of [(''budget'', 50), (''mid'', 120), (''luxe'', 260)] lvl = Some rate
                 \<and> Option.bind (field ''usd_breakdown'' q) (field ''accommodation'')
                     = Some (JNum (rate * days * travellers))))
         \<and> (k \<noteq> ''city'' \<longrightarrow>
              and_then (estimate_budget_fixed L city days style) (\<lambda>q. Inr (field k q))
              = and_then (estimate_budget_fixed L city' days style) (\<lambda>q. Inr (field k q)))"
proof -
  have n: "map_of CITY_COSTS city = None" using assms by (rule map_of_CITY_COSTS_None)
  have g: "map_of CITY_COSTS ''General'' = Some [(''budget'', 50), (''mid'', 120), (''luxe'', 260)]"
    by (simp add: CITY_COSTS_def)
  have 1: "estimate_budget h prefs city days travellers budget_level =
           and_then (estimate_budget h prefs ''General'' days travellers budget_level)
                    (\<lambda>q. Inr (with_city city q))"
    unfolding estimate_budget_def Let_def getitem_General n g option.case and_then_assoc
      and_then_Inr with_city_quote ..
  have 2: "\<exists>lvl rate.
                 Option.bind (field ''inputs'' q) (field ''budget_level'') = Some (JStr lvl)
                 \<and> map_of [(''budget'', 50), (''mid'', 120), (''luxe'', 260)] lvl = Some rate
                 \<and> Option.bind (field ''usd_breakdown'' q) (field ''accommodation'')
                     = Some (JNum (rate * days * travellers))"
    if "estimate_budget h prefs city days travellers budget_level = Inr q" for q
  proof -
    from that obtain lvl rate t m a total where
      r: "getitem [(''budget'', 50), (''mid'', 120), (''luxe'', 260)] lvl = Inr rate"
      and q: "q = JObj
       [(''assumptions_note'', JStr ''Rough averages; adjust to season and availability.''),
        (''inputs'', JObj [(''city'', JStr city), (''days'', JNum days),
                          (''travellers'', JNum travellers), (''budget_level'', JStr lvl)]),
        (''usd_breakdown'', JObj [(''accommodation'', JNum (rate * days * travellers)),
                                 (''transport'', JNum (t * days * travellers)),
                                 (''meals'', JNum (m * days * travellers)),
                                 (''attractions'', JNum (a * days * travellers)),
                                 (''buffer_10pct'', JNum (total -
                                    (rate * days * travellers + t * days * travellers
                                     + m * days * travellers + a * days * travellers)))]),
        (''total_usd'', JNum total)]"
      unfolding estimate_budget_def Let_def getitem_General n option.case and_then_Inr
        and_then_eq_Inr
      by blast
    from r have "map_of [(''budget'', 50), (''mid'', 120), (''luxe'', 260)] lvl = Some rate"
      by (simp only: getitem_Inr_iff)
    moreover have "Option.bind (field ''inputs'' q) (field ''budget_level'') = Some (JStr lvl)"
      unfolding q by simp
    moreover have "Option.bind (field ''usd_breakdown'' q) (field ''accommodation'')
                     = Some (JNum (rate * days * travellers))"
      unfolding q by simp
    ultimately show ?thesis by blast
  qed
  have 3: "level_or_preference h prefs budget_level = PStr b
              \<and> 0 < days \<and> 1 \<le> travellers \<and> days * travellers < 2 ^ 38 \<longrightarrow>
              (\<exists>q. estimate_budget h prefs city days travellers budget_level = Inr q)"
    using estimate_budget_returns[of h prefs budget_level b days travellers city] by blast
  have 4: "k \<noteq> ''city'' \<longrightarrow>
              and_then (estimate_budget_fixed L city days style) (\<lambda>q. Inr (field k q))
              = and_then (estimate_budget_fixed L city' days style) (\<lambda>q. Inr (field k q))"
    using estimate_budget_fixed_city_echo[of k L city days style city'] by blast
  from 1 2 3 4 show ?thesis by blast
qed

text \<open>\<^verbatim>\<open>estimate_budget("Unknown City", 2, 1, "mid")\<close>: accommodation \<open>120 * 2\<close>, subtotal
  410, total 452.\<close>

text \<open>\<^verbatim>\<open>estimate_budget("Unknown City", 2, 1, "mid")\<close> of \<^verbatim>\<open>tools.py\<close>: accommodation
  \<open>120 * 2\<close>, subtotal 410, total 452. In \<^verbatim>\<open>tools.fixed.py\<close> the total for style
  \<^verbatim>\<open>"standard"\<close> is the same for \<^verbatim>\<open>"Unknown City"\<close> and \<^verbatim>\<open>"Dubai"\<close>.\<close>

theorem unknown_city_uses_General_row_witness:
  "''Unknown City'' \<notin> fst ` set CITY_COSTS
   \<and> level_or_preference (snd (PreferencesStore_init [])) 1 (Some ''mid'') = PStr ''mid''
   \<and> (0::int) < 2 \<and> (1::int) \<le> 1 \<and> (2::int) * 1 < 2 ^ 38
   \<and> ''estimated_total_aed'' \<noteq> ''city''
   \<and> estimate_budget (snd (PreferencesStore_init [])) 1 ''Unknown City'' 2 1 (Some ''mid'')
     = Inr (JObj
       [(''assumptions_note'', JStr ''Rough averages; adjust to season and availability.''),
        (''inputs'', JObj [(''city'', JStr ''Unknown City''), (''days'', JNum 2),
           (''travellers'', JNum 1), (''budget_level'', JStr ''mid'')]),
        (''usd_breakdown'', JObj [(''accommodation'', JNum 240), (''transport'', JNum 50),
           (''meals'', JNum 70), (''attractions'', JNum 50), (''buffer_10pct'', JNum 42)]),
        (''total_usd'', JNum 452)])
   \<and> (\<exists>q. estimate_budget (snd (PreferencesStore_init [])) 1 ''Unknown City'' 2 1 (Some ''mid'')
          = Inr q)
   \<and> and_then (estimate_budget_fixed ascii_methods ''Unknown City'' 2 (Some ''standard''))
         (\<lambda>q. Inr (field ''estimated_total_aed'' q))
     = and_then (estimate_budget_fixed ascii_methods ''Dubai'' 2 (Some ''standard''))
         (\<lambda>q. Inr (field ''estimated_total_aed'' q))"
proof -
  let ?h = "snd (PreferencesStore_init [])"
  have u: "''Unknown City'' \<notin> fst ` set CITY_COSTS" by (simp add: CITY_COSTS_def)
  have l: "level_or_preference ?h 1 (Some ''mid'') = PStr ''mid''"
    by (simp add: level_or_preference_def truthy_def)
  have n: "(0::int) < 2 \<and> (1::int) \<le> 1 \<and> (2::int) * 1 < 2 ^ 38" by simp
  have k: "''estimated_total_aed'' \<noteq> ''city''" by simp
  have e: "estimate_budget ?h 1 ''General'' 2 1 (Some ''mid'')
     = Inr (JObj
       [(''assumptions_note'', JStr ''Rough averages; adjust to season and availability.''),
        (''inputs'', JObj [(''city'', JStr ''General''), (''days'', JNum 2),
           (''travellers'', JNum 1), (''budget_level'', JStr ''mid'')]),
        (''usd_breakdown'', JObj [(''accommodation'', JNum 240), (''transport'', JNum 50),
           (''meals'', JNum 70), (''attractions'', JNum 50), (''buffer_10pct'', JNum 42)]),
        (''total_usd'', JNum 452)])"
    by code_simp
  note t = unknown_city_uses_General_row[OF u, where h = ?h and prefs = 1 and days = 2
      and travellers = 1 and budget_level = "Some ''mid''" and b = "''mid''"
      and k = "''estimated_total_aed''" and L = ascii_methods and style = "Some ''standard''"
      and city' = "''Dubai''"]
  from t have a: "estimate_budget ?h 1 ''Unknown City'' 2 1 (Some ''mid'') =
           and_then (estimate_budget ?h 1 ''General'' 2 1 (Some ''mid''))
                    (\<lambda>q. Inr (with_city ''Unknown City'' q))"
    by (rule conjunct1)
  from t l n have b: "\<exists>q. estimate_budget ?h 1 ''Unknown City'' 2 1 (Some ''mid'') = Inr q"
    by blast
  from t k have c: "and_then (estimate_budget_fixed ascii_methods ''Unknown City'' 2 (Some ''standard''))
         (\<lambda>q. Inr (field ''estimated_total_aed'' q))
     = and_then (estimate_budget_fixed ascii_methods ''Dubai'' 2 (Some ''standard''))
         (\<lambda>q. Inr (field ''estimated_total_aed'' q))"
    by blast
  from a have a': "estimate_budget ?h 1 ''Unknown City'' 2 1 (Some ''mid'')
     = Inr (JObj
       [(''assumptions_note'', JStr ''Rough averages; adjust to season and availability.''),
        (''inputs'', JObj [(''city'', JStr ''Unknown City''), (''days'', JNum 2),
           (''travellers'', JNum 1), (''budget_level'', JStr ''mid'')]),
        (''usd_breakdown'', JObj [(''accommodation'', JNum 240), (''transport'', JNum 50),
           (''meals'', JNum 70), (''attractions'', JNum 50), (''buffer_10pct'', JNum 42)]),
        (''total_usd'', JNum 452)])"
    unfolding e and_then_Inr with_city_quote .
  from u l n k a' b c show ?thesis by blast
qed


section \<open>The total of a quote\<close>

text \<open>
  Claim C2 states that the total is the ceiling of 1.10 times the sum of the four
  categories. \<^verbatim>\<open>tools.py\<close> computes \<^verbatim>\<open>math.ceil(subtotal * 1.10)\<close> in binary floating
  point. For Sharjah, one day, one traveller, level \<open>budget\<close> the categories are 50, 12,
  18 and 10; the double nearest to \<open>90 * 1.10\<close> lies just above 99, so the code returns
  the total 100 and the buffer 10, while the ceiling of \<open>90 * 1.10\<close> is 99. The category
  lines and the buffer line are as the claim has them (\<open>estimate_budget_quote\<close>), and
  the total is never more than one above the claimed value
  (\<open>estimate_budget_total_within_one\<close>).
\<close>

theorem estimate_budget_rounds_above_ceiling:
  "estimate_budget (snd (PreferencesStore_init [])) 1 ''Sharjah'' 1 1 (Some ''budget'')
   = Inr (JObj
       [(''assumptions_note'', JStr ''Rough averages; adjust to season and availability.''),
        (''inputs'', JObj [(''city'', JStr ''Sharjah''), (''days'', JNum 1),
           (''travellers'', JNum 1), (''budget_level'', JStr ''budget'')]),
        (''usd_breakdown'', JObj [(''accommodation'', JNum 50), (''transport'', JNum 12),
           (''meals'', JNum 18), (''attractions'', JNum 10), (''buffer_10pct'', JNum 10)]),
        (''total_usd'', JNum 100)])
   \<and> \<lceil>real_of_int (50 + 12 + 18 + 10) * 1.10\<rceil> = (99 :: int)"
proof -
  have "\<lceil>real_of_int (50 + 12 + 18 + 10) * 1.10\<rceil> = (99 :: int)"
    by (simp add: ceiling_eq_iff)
  moreover have "estimate_budget (snd (PreferencesStore_init [])) 1 ''Sharjah'' 1 1 (Some ''budget'')
   = Inr (JObj
       [(''assumptions_note'', JStr ''Rough averages; adjust to season and availability.''),
        (''inputs'', JObj [(''city'', JStr ''Sharjah''), (''days'', JNum 1),
           (''travellers'', JNum 1), (''budget_level'', JStr ''budget'')]),
        (''usd_breakdown'', JObj [(''accommodation'', JNum 50), (''transport'', JNum 12),
           (''meals'', JNum 18), (''attractions'', JNum 10), (''buffer_10pct'', JNum 10)]),
        (''total_usd'', JNum 100)])"
    by code_simp
  ultimately show ?thesis by blast
qed


section \<open>Facts about the prayer-time tools\<close>

lemma getitem_FALLBACK_Dubai:
  "getitem FALLBACK ''Dubai'' =
     Inr [(''Fajr'', JStr ''04:25''), (''Dhuhr'', JStr ''12:25''), (''Asr'', JStr ''15:55''),
          (''Maghrib'', JStr ''18:49''), (''Isha'', JStr ''20:19'')]"
  by (simp add: getitem_def FALLBACK_def)

lemma FALLBACK_rows_canonical:
  "map_of FALLBACK c = Some row \<Longrightarrow> map fst row = CANONICAL"
  by (auto simp: FALLBACK_def CANONICAL_def split: if_splits)

lemma pick_keys:
  "pick t ks = Inr out \<Longrightarrow> map fst out = filter (\<lambda>k. json_contains t k = Inr True) ks"
proof (induction ks arbitrary: out)
  case Nil
  then show ?case by simp
next
  case (Cons k ks)
  then show ?case
    by (cases "json_contains t k") (auto simp: and_then_eq_Inr split: if_splits)
qed

lemma pick_values:
  "pick t ks = Inr out \<Longrightarrow> (k, v) \<in> set out \<Longrightarrow> subscript t k = Inr v"
proof (induction ks arbitrary: out)
  case Nil
  then show ?case by simp
next
  case (Cons k' ks)
  then show ?case
    by (cases "json_contains t k'") (auto simp: and_then_eq_Inr split: if_splits)
qed

lemma pick_subseq: "pick t ks = Inr out \<Longrightarrow> subseq (map fst out) ks"
  by (simp add: pick_keys)

lemma pick_non_dict:
  "pick t ks = Inr out \<Longrightarrow> (\<forall>kvs. t \<noteq> JObj kvs) \<Longrightarrow> out = []"
proof (induction ks arbitrary: out)
  case Nil
  then show ?case by simp
next
  case (Cons k ks)
  have sub: "subscript t k = Inl TypeError"
    using Cons.prems(2) by (cases t) (simp_all add: subscript_def)
  show ?case
    using Cons
    by (cases "json_contains t k") (auto simp: and_then_eq_Inr sub split: if_splits)
qed

lemma prayer_times_fixed_fallback:
  assumes "\<not> live_ok outcome"
  shows "\<exists>dt row. prayer_times_fixed L now outcome city date =
           Inr (JObj [(''city'', JStr (normalize_city L city)), (''date'', JStr dt),
                      (''prayer_times'', JObj row), (''note'', JStr ''Static fallback'')])
         \<and> map fst row = CANONICAL
         \<and> (case map_of FALLBACK (normalize_city L city) of
               Some own \<Rightarrow> row = own
             | None \<Rightarrow> map_of FALLBACK ''Dubai'' = Some row)"
proof -
  obtain y m d where rd: "resolve_date now date = (y, m, d)" by (cases "resolve_date now date")
  have live: "(case live_timings outcome of
                 Inr out \<Rightarrow> if out \<noteq> [] then Some (JObj [(''city'', JStr (normalize_city L city)),
                                       (''date'', JStr (y @ ''-'' @ m @ ''-'' @ d)),
                                       (''prayer_times'', JObj out)]) else None
               | Inl e \<Rightarrow> None) = None"
    using assms by (cases "live_timings outcome") (auto simp: live_ok_def)
  have dub: "map_of FALLBACK ''Dubai'' = Some [(''Fajr'', JStr ''04:25''), (''Dhuhr'', JStr ''12:25''), (''Asr'', JStr ''15:55''),
          (''Maghrib'', JStr ''18:49''), (''Isha'', JStr ''20:19'')]"
    by (simp add: FALLBACK_def)
  show ?thesis
  proof (cases "map_of FALLBACK (normalize_city L city)")
    case None
    show ?thesis
      unfolding prayer_times_fixed_def Let_def rd prod.case live option.case
        getitem_FALLBACK_Dubai and_then_Inr None
      using dub by (auto simp: CANONICAL_def)
  next
    case (Some own)
    show ?thesis
      unfolding prayer_times_fixed_def Let_def rd prod.case live option.case
        getitem_FALLBACK_Dubai and_then_Inr Some
      using FALLBACK_rows_canonical[OF Some] by auto
  qed
qed

lemma prayer_times_fixed_live:
  assumes "live_timings outcome = Inr out" and "out \<noteq> []"
  shows "\<exists>dt. prayer_times_fixed L now outcome city date =
           Inr (JObj [(''city'', JStr (normalize_city L city)), (''date'', JStr dt),
                      (''prayer_times'', JObj out)])"
proof -
  obtain y m d where rd: "resolve_date now date = (y, m, d)" by (cases "resolve_date now date")
  show ?thesis
    unfolding prayer_times_fixed_def Let_def rd prod.case assms(1) sum.case
    using assms(2) by simp
qed

lemma prayer_times_fixed_status:
  "prayer_times_fixed L now (Response s1 body) city date
   = prayer_times_fixed L now (Response s2 body) city date"
  by (simp add: prayer_times_fixed_def live_timings_def)

lemma prayer_times_fixed_returns: "\<exists>r. prayer_times_fixed L now outcome city date = Inr r"
proof (cases "live_ok outcome")
  case False
  from prayer_times_fixed_fallback[OF False] show ?thesis by blast
next
  case True
  then obtain out where "live_timings outcome = Inr out" "out \<noteq> []"
    by (cases "live_timings outcome") (auto simp: live_ok_def)
  from prayer_times_fixed_live[OF this] show ?thesis by blast
qed

lemma live_timings_failures:
  "live_timings Raises = Inl RequestException"
  "live_timings (Response st None) = Inl JSONDecodeError"
  "subscript j ''data'' = Inl e \<Longrightarrow> live_timings (Response st (Some j)) = Inl e"
  "subscript j ''data'' = Inr dat \<Longrightarrow> subscript dat ''timings'' = Inl e
     \<Longrightarrow> live_timings (Response st (Some j)) = Inl e"
  by (simp_all add: live_timings_def)

lemma live_timings_non_dict:
  assumes "subscript j ''data'' = Inr dat" "subscript dat ''timings'' = Inr t"
    "\<forall>kvs. t \<noteq> JObj kvs" "live_timings (Response st (Some j)) = Inr out"
  shows "out = []"
  using assms pick_non_dict[of t CANONICAL out] by (simp add: live_timings_def)

lemma prayer_times_returns: "\<exists>r. prayer_times today outcome city date = Inr r"
  unfolding prayer_times_def by (simp split: sum.splits)

lemma prayer_times_failure:
  "prayer_times today Raises city None = Inr (ErrorReply RequestException)"
  "prayer_times today (Response st None) city None = Inr (ErrorReply JSONDecodeError)"
  by (simp_all add: prayer_times_def)

lemma not_live_ok_failures:
  "\<not> live_ok Raises"
  "\<not> live_ok (Response st None)"
  "subscript j ''data'' = Inl e \<Longrightarrow> \<not> live_ok (Response st (Some j))"
  "subscript j ''data'' = Inr dat \<Longrightarrow> subscript dat ''timings'' = Inl e
     \<Longrightarrow> \<not> live_ok (Response st (Some j))"
  by (simp_all add: live_ok_def live_timings_def)

lemma not_live_ok_non_dict:
  assumes "subscript j ''data'' = Inr dat" "subscript dat ''timings'' = Inr t"
    "\<forall>kvs. t \<noteq> JObj kvs"
  shows "\<not> live_ok (Response st (Some j))"
proof (cases "live_timings (Response st (Some j))")
  case (Inl e)
  then show ?thesis by (simp add: live_ok_def)
next
  case (Inr out)
  from live_timings_non_dict[OF assms Inr] Inr show ?thesis by (simp add: live_ok_def)
qed

lemma pick_dict:
  "pick (JObj kvs) ks = Inr (map (\<lambda>k. (k, the (map_of kvs k))) (filter (\<lambda>k. k \<in> fst ` set kvs) ks))"
proof (induction ks)
  case Nil
  then show ?case by simp
next
  case (Cons k ks)
  show ?case
  proof (cases "k \<in> fst ` set kvs")
    case True
    then obtain v where v: "map_of kvs k = Some v"
      by (metis map_of_eq_None_iff not_None_eq)
    show ?thesis using True v Cons.IH
      by (simp add: json_contains_def subscript_def getitem_def)
  next
    case False
    then show ?thesis using Cons.IH by (simp add: json_contains_def)
  qed
qed

lemma not_live_ok_no_names:
  assumes "subscript j ''data'' = Inr dat" "subscript dat ''timings'' = Inr (JObj kvs)"
    "set CANONICAL \<inter> fst ` set kvs = {}"
  shows "\<not> live_ok (Response st (Some j))"
proof -
  have "filter (\<lambda>k. k \<in> fst ` set kvs) CANONICAL = []"
    using assms(3) by (auto simp: filter_empty_conv)
  then show ?thesis
    using assms(1,2) by (simp add: live_ok_def live_timings_def pick_dict)
qed

lemma live_ok_dict:
  assumes "subscript j ''data'' = Inr dat" "subscript dat ''timings'' = Inr (JObj kvs)"
    "k \<in> set CANONICAL" "k \<in> fst ` set kvs"
  shows "live_ok (Response st (Some j))"
proof -
  have "filter (\<lambda>k. k \<in> fst ` set kvs) CANONICAL \<noteq> []"
    using assms(3,4) by (auto simp: filter_empty_conv)
  then show ?thesis
    using assms(1,2) by (simp add: live_ok_def live_timings_def pick_dict)
qed

lemma live_timings_values:
  assumes "live_timings outcome = Inr out" "(k, v) \<in> set out"
  shows "\<exists>st j dat t. outcome = Response st (Some j) \<and> subscript j ''data'' = Inr dat
           \<and> subscript dat ''timings'' = Inr t \<and> subscript t k = Inr v"
proof (cases outcome)
  case Raises
  with assms show ?thesis by (simp add: live_timings_def)
next
  case (Response st body)
  show ?thesis
  proof (cases body)
    case None
    with assms Response show ?thesis by (simp add: live_timings_def)
  next
    case (Some j)
    from assms(1) obtain dat t where
      d: "subscript j ''data'' = Inr dat" and t: "subscript dat ''timings'' = Inr t"
      and p: "pick t CANONICAL = Inr out"
      unfolding Response Some live_timings_def by (auto simp: and_then_eq_Inr)
    from pick_values[OF p assms(2)] d t Response Some show ?thesis by blast
  qed
qed

lemma live_timings_subseq: "live_timings outcome = Inr out \<Longrightarrow> subseq (map fst out) CANONICAL"
  by (cases outcome)
     (auto simp: live_timings_def and_then_eq_Inr pick_subseq split: option.splits)

text \<open>The fixed variant does not read the status code: a response with status 500 whose
  body carries a timings object is answered from that body.\<close>

lemma prayer_times_fixed_ignores_status_example:
  "prayer_times_fixed ascii_methods (''2026'', ''11'', ''04'')
     (Response 500 (Some (JObj [(''data'', JObj [(''timings'', JObj [(''Fajr'', JStr ''05:01'')])])])))
     ''dubai'' None
   = Inr (JObj [(''city'', JStr ''Dubai''), (''date'', JStr ''2026-11-04''),
                (''prayer_times'', JObj [(''Fajr'', JStr ''05:01'')])])"
  by code_simp


section \<open>Failures of the prayer-time request\<close>

text \<open>
  Claim C1, as stated, has every failure end in the static fallback. \<^verbatim>\<open>prayer_times\<close> of
  \<^verbatim>\<open>tools.py\<close> has no fallback table: when the request raises (date omitted), its
  handler returns the payload \<^verbatim>\<open>{"error": str(e)}\<close>.
\<close>

theorem prayer_times_error_payload_counterexample:
  "prayer_times ''2026-11-04'' Raises ''Dubai'' None = Inr (ErrorReply RequestException)"
  by (simp add: prayer_times_def)

text \<open>
  Claim C1, amended. Neither variant raises to its caller. In \<^verbatim>\<open>tools.fixed.py\<close>,
  whenever the live path does not succeed the result is the static row of the
  normalised city (Dubai's row for a city outside the table) marked
  \<^verbatim>\<open>"note": "Static fallback"\<close>, and the live path does not succeed when the request
  raises, when the body is not JSON, when \<^verbatim>\<open>body["data"]\<close> or \<^verbatim>\<open>["timings"]\<close> cannot
  be read, when the timings value is not an object, and when it holds none of the five
  names. The status code is not consulted: two responses with the same body give the
  same result. In \<^verbatim>\<open>tools.py\<close>, with the date omitted, a failed request or an unparsable
  body is reported as an \<^verbatim>\<open>{"error": ...}\<close> payload. The city is normalised by Python's
  \<^verbatim>\<open>strip\<close> and \<^verbatim>\<open>title\<close>; the statement holds whatever these methods return (\<open>L\<close>).
\<close>

theorem prayer_times_never_raise:
  "(\<exists>r. prayer_times_fixed L now outcome city date = Inr r)
   \<and> (\<not> live_ok outcome \<longrightarrow>
        (\<exists>dt row. prayer_times_fixed L now outcome city date =
           Inr (JObj [(''city'', JStr (normalize_city L city)), (''date'', JStr dt),
                      (''prayer_times'', JObj row), (''note'', JStr ''Static fallback'')])
           \<and> (case map_of FALLBACK (normalize_city L city) of
                 Some own \<Rightarrow> row = own
               | None \<Rightarrow> map_of FALLBACK ''Dubai'' = Some row)))
   \<and> \<not> live_ok Raises
   \<and> \<not> live_ok (Response st None)
   \<and> (subscript j ''data'' = Inl e \<longrightarrow> \<not> live_ok (Response st (Some j)))
   \<and> (subscript j ''data'' = Inr dat \<and> subscript dat ''timings'' = Inl e
        \<longrightarrow> \<not> live_ok (Response st (Some j)))
   \<and> (subscript j ''data'' = Inr dat \<and> subscript dat ''timings'' = Inr t
        \<and> (\<forall>kvs. t \<noteq> JObj kvs) \<longrightarrow> \<not> live_ok (Response st (Some j)))
   \<and> (subscript j ''data'' = Inr dat \<and> subscript dat ''timings'' = Inr (JObj kvs)
        \<and> set CANONICAL \<inter> fst ` set kvs = {} \<longrightarrow> \<not> live_ok (Response st (Some j)))
   \<and> prayer_times_fixed L now (Response st body) city date
       = prayer_times_fixed L now (Response st' body) city date
   \<and> (\<exists>r. prayer_times today outcome city date = Inr r)
   \<and> prayer_times today Raises city None = Inr (ErrorReply RequestException)
   \<and> prayer_times today (Response st None) city None = Inr (ErrorReply JSONDecodeError)"
proof -
  have 2: "\<not> live_ok outcome \<longrightarrow>
        (\<exists>dt row. prayer_times_fixed L now outcome city date =
           Inr (JObj [(''city'', JStr (normalize_city L city)), (''date'', JStr dt),
                      (''prayer_times'', JObj row), (''note'', JStr ''Static fallback'')])
           \<and> (case map_of FALLBACK (normalize_city L city) of
                 Some own \<Rightarrow> row = own
               | None \<Rightarrow> map_of FALLBACK ''Dubai'' = Some row))"
    using prayer_times_fixed_fallback[of outcome L now city date] by blast
  show ?thesis
    using prayer_times_fixed_returns[of L now outcome city date] 2
      not_live_ok_failures not_live_ok_non_dict[of j dat t st]
      not_live_ok_no_names[of j dat kvs st]
      prayer_times_fixed_status[of L now st body city date st']
      prayer_times_returns[of today outcome city date]
      prayer_times_failure
    by blast
qed

text \<open>A 503 response whose body is an error object with a string under \<^verbatim>\<open>"data"\<close>:
  the subscript \<^verbatim>\<open>["timings"]\<close> raises \<^verbatim>\<open>TypeError\<close>, and the fixed variant answers
  with Abu Dhabi's static row.\<close>

theorem prayer_times_never_raise_witness:
  "subscript (JObj [(''code'', JNum 503), (''data'', JStr ''Service unavailable'')]) ''data''
     = Inr (JStr ''Service unavailable'')
   \<and> subscript (JStr ''Service unavailable'') ''timings'' = Inl TypeError
   \<and> \<not> live_ok (Response 503
         (Some (JObj [(''code'', JNum 503), (''data'', JStr ''Service unavailable'')])))
   \<and> prayer_times_fixed ascii_methods (''2026'', ''11'', ''04'')
         (Response 503 (Some (JObj [(''code'', JNum 503), (''data'', JStr ''Service unavailable'')])))
         '' abu dhabi '' None
       = Inr (JObj [(''city'', JStr ''Abu Dhabi''), (''date'', JStr ''2026-11-04''),
                    (''prayer_times'',
                       JObj [(''Fajr'', JStr ''04:30''), (''Dhuhr'', JStr ''12:30''),
                             (''Asr'', JStr ''16:00''), (''Maghrib'', JStr ''18:53''),
                             (''Isha'', JStr ''20:23'')]),
                    (''note'', JStr ''Static fallback'')])
   \<and> prayer_times ''2026-11-04'' (Response 503 None) ''Dubai'' None
       = Inr (ErrorReply JSONDecodeError)"
proof -
  let ?j = "JObj [(''code'', JNum 503), (''data'', JStr ''Service unavailable'')]"
  have a: "subscript ?j ''data'' = Inr (JStr ''Service unavailable'')"
    by (simp add: subscript_def getitem_def)
  have b: "subscript (JStr ''Service unavailable'') ''timings'' = Inl TypeError"
    by (simp add: subscript_def)
  have ev: "prayer_times_fixed ascii_methods (''2026'', ''11'', ''04'') (Response 503 (Some ?j))
         '' abu dhabi '' None
       = Inr (JObj [(''city'', JStr ''Abu Dhabi''), (''date'', JStr ''2026-11-04''),
                    (''prayer_times'',
                       JObj [(''Fajr'', JStr ''04:30''), (''Dhuhr'', JStr ''12:30''),
                             (''Asr'', JStr ''16:00''), (''Maghrib'', JStr ''18:53''),
                             (''Isha'', JStr ''20:23'')]),
                    (''note'', JStr ''Static fallback'')])"
    by code_simp
  from prayer_times_never_raise[where j = ?j and dat = "JStr ''Service unavailable''"
         and e = TypeError and st = 503 and today = "''2026-11-04''" and city = "''Dubai''"]
  have "\<not> live_ok (Response 503 (Some ?j))"
    and "prayer_times ''2026-11-04'' (Response 503 None) ''Dubai'' None
           = Inr (ErrorReply JSONDecodeError)"
    using a b by blast+
  then show ?thesis using a b ev by blast
qed


section \<open>The names in a prayer-time result\<close>

text \<open>
  Claim C4. When \<^verbatim>\<open>prayer_times\<close> of \<^verbatim>\<open>tools.fixed.py\<close> takes the fallback path, the
  timings it returns are a row of the static table, whose names are exactly Fajr, Dhuhr,
  Asr, Maghrib, Isha in this order: the row of the normalised city when the table has
  one, Dubai's row otherwise. When the live path succeeds, the timings returned are the
  non-empty selection \<^verbatim>\<open>out\<close> from the response: its names form a subsequence of the
  five canonical names and each value is the one the response holds under that name.
  The city is normalised by Python's \<^verbatim>\<open>strip\<close> and \<^verbatim>\<open>title\<close>; the statement holds
  whatever these methods return (\<open>L\<close>).
\<close>

theorem prayer_times_fixed_five_names:
  "(\<not> live_ok outcome \<longrightarrow>
      (\<exists>dt row. prayer_times_fixed L now outcome city date =
           Inr (JObj [(''city'', JStr (normalize_city L city)), (''date'', JStr dt),
                      (''prayer_times'', JObj row), (''note'', JStr ''Static fallback'')])
         \<and> map fst row = CANONICAL
         \<and> (case map_of FALLBACK (normalize_city L city) of
               Some own \<Rightarrow> row = own
             | None \<Rightarrow> map_of FALLBACK ''Dubai'' = Some row)))
   \<and> (live_ok outcome \<longrightarrow>
      (\<exists>dt out. prayer_times_fixed L now outcome city date =
           Inr (JObj [(''city'', JStr (normalize_city L city)), (''date'', JStr dt),
                      (''prayer_times'', JObj out)])
         \<and> live_timings outcome = Inr out \<and> out \<noteq> []
         \<and> subseq (map fst out) CANONICAL
         \<and> (\<forall>k v. (k, v) \<in> set out \<longrightarrow>
               (\<exists>st j dat t. outcome = Response st (Some j)
                  \<and> subscript j ''data'' = Inr dat \<and> subscript dat ''timings'' = Inr t
                  \<and> subscript t k = Inr v))))"
proof -
  have 1: "\<not> live_ok outcome \<longrightarrow>
      (\<exists>dt row. prayer_times_fixed L now outcome city date =
           Inr (JObj [(''city'', JStr (normalize_city L city)), (''date'', JStr dt),
                      (''prayer_times'', JObj row), (''note'', JStr ''Static fallback'')])
         \<and> map fst row = CANONICAL
         \<and> (case map_of FALLBACK (normalize_city L city) of
               Some own \<Rightarrow> row = own
             | None \<Rightarrow> map_of FALLBACK ''Dubai'' = Some row))"
    using prayer_times_fixed_fallback[of outcome L now city date] by blast
  have 2: "\<exists>dt out. prayer_times_fixed L now outcome city date =
           Inr (JObj [(''city'', JStr (normalize_city L city)), (''date'', JStr dt),
                      (''prayer_times'', JObj out)])
         \<and> live_timings outcome = Inr out \<and> out \<noteq> []
         \<and> subseq (map fst out) CANONICAL
         \<and> (\<forall>k v. (k, v) \<in> set out \<longrightarrow>
               (\<exists>st j dat t. outcome = Response st (Some j)
                  \<and> subscript j ''data'' = Inr dat \<and> subscript dat ''timings'' = Inr t
                  \<and> subscript t k = Inr v))" if "live_ok outcome"
  proof -
    from that obtain out where o: "live_timings outcome = Inr out" "out \<noteq> []"
      by (cases "live_timings outcome") (auto simp: live_ok_def)
    from prayer_times_fixed_live[OF o, of L now city date] obtain dt where
      r: "prayer_times_fixed L now outcome city date =
           Inr (JObj [(''city'', JStr (normalize_city L city)), (''date'', JStr dt),
                      (''prayer_times'', JObj out)])" by blast
    show ?thesis
      using r o live_timings_subseq[OF o(1)] live_timings_values[OF o(1)] by blast
  qed
  from 1 2 show ?thesis by blast
qed

text \<open>With the service unreachable, \<^verbatim>\<open>"al ain"\<close> is answered with Dubai's row; a live
  response that also carries \<^verbatim>\<open>Sunrise\<close> is cut down to \<^verbatim>\<open>Fajr\<close> and \<^verbatim>\<open>Isha\<close>.\<close>

theorem prayer_times_fixed_five_names_witness:
  "\<not> live_ok Raises
   \<and> live_ok (Response 200 (Some (JObj [(''data'', JObj [(''timings'',
         JObj [(''Fajr'', JStr ''05:01''), (''Sunrise'', JStr ''06:20''), (''Isha'', JStr ''19:05'')])])])))
   \<and> prayer_times_fixed ascii_methods (''2026'', ''11'', ''04'') Raises ''al ain'' (Some ''2026-12-01'')
       = Inr (JObj [(''city'', JStr ''Al Ain''), (''date'', JStr ''2026-12-01''),
                    (''prayer_times'',
                       JObj [(''Fajr'', JStr ''04:25''), (''Dhuhr'', JStr ''12:25''),
                             (''Asr'', JStr ''15:55''), (''Maghrib'', JStr ''18:49''),
                             (''Isha'', JStr ''20:19'')]),
                    (''note'', JStr ''Static fallback'')])
   \<and> prayer_times_fixed ascii_methods (''2026'', ''11'', ''04'')
        (Response 200 (Some (JObj [(''data'', JObj [(''timings'',
         JObj [(''Fajr'', JStr ''05:01''), (''Sunrise'', JStr ''06:20''), (''Isha'', JStr ''19:05'')])])])))
        ''sharjah'' None
       = Inr (JObj [(''city'', JStr ''Sharjah''), (''date'', JStr ''2026-11-04''),
                    (''prayer_times'', JObj [(''Fajr'', JStr ''05:01''), (''Isha'', JStr ''19:05'')])])"
proof -
  let ?live = "Response 200 (Some (JObj [(''data'', JObj [(''timings'',
         JObj [(''Fajr'', JStr ''05:01''), (''Sunrise'', JStr ''06:20''), (''Isha'', JStr ''19:05'')])])]))"
  have a: "\<not> live_ok Raises" by (simp add: live_ok_def live_timings_def)
  have b: "live_ok ?live" by code_simp
  have c: "map_of FALLBACK (normalize_city ascii_methods ''al ain'') = None" by code_simp
  have d: "map_of FALLBACK ''Dubai'' = Some [(''Fajr'', JStr ''04:25''), (''Dhuhr'', JStr ''12:25''),
                             (''Asr'', JStr ''15:55''), (''Maghrib'', JStr ''18:49''),
                             (''Isha'', JStr ''20:19'')]" by (simp add: FALLBACK_def)
  have e: "prayer_times_fixed ascii_methods (''2026'', ''11'', ''04'') ?live ''sharjah'' None
       = Inr (JObj [(''city'', JStr ''Sharjah''), (''date'', JStr ''2026-11-04''),
                    (''prayer_times'', JObj [(''Fajr'', JStr ''05:01''), (''Isha'', JStr ''19:05'')])])"
    by code_simp
  have f: "prayer_times_fixed ascii_methods (''2026'', ''11'', ''04'') Raises ''al ain'' (Some ''2026-12-01'')
       = Inr (JObj [(''city'', JStr ''Al Ain''), (''date'', JStr ''2026-12-01''),
                    (''prayer_times'',
                       JObj [(''Fajr'', JStr ''04:25''), (''Dhuhr'', JStr ''12:25''),
                             (''Asr'', JStr ''15:55''), (''Maghrib'', JStr ''18:49''),
                             (''Isha'', JStr ''20:19'')]),
                    (''note'', JStr ''Static fallback'')])"
    by code_simp
  from prayer_times_fixed_five_names[of Raises ascii_methods "(''2026'', ''11'', ''04'')"
         "''al ain''" "Some ''2026-12-01''"] a
  obtain dt row where
    "prayer_times_fixed ascii_methods (''2026'', ''11'', ''04'') Raises ''al ain'' (Some ''2026-12-01'') =
           Inr (JObj [(''city'', JStr (normalize_city ascii_methods ''al ain'')), (''date'', JStr dt),
                      (''prayer_times'', JObj row), (''note'', JStr ''Static fallback'')])"
    "map_of FALLBACK ''Dubai'' = Some row"
    unfolding c by auto
  then show ?thesis using a b e f by simp
qed


section \<open>Facts about the knowledge search\<close>









text \<open>When two cities are named, the one that comes first in the document is taken.\<close>

lemma search_two_cities_example:
  "search_json_kb
     \<lparr>cities = Some [(''Dubai'', \<lparr>top_attractions = Some [''Burj Khalifa'', ''Dubai Mall''],
                                 cultural_tips = None\<rparr>),
                      (''Sharjah'', \<lparr>top_attractions = Some [''Al Noor Island''],
                                 cultural_tips = None\<rparr>)],
      activities = None, general_info = None\<rparr>
     ''attractions in Sharjah, then Dubai''
   = Inr (TopAttractions ''Dubai'' [''Burj Khalifa'', ''Dubai Mall''])"
  by code_simp


section \<open>The default of the knowledge search\<close>




section \<open>Attractions of a city\<close>




end
